theory Spec2Isabelle
  imports Main "HOL-Library.Sublist"
begin

text \<open>
  The repository is one notebook, \<^verbatim>\<open>Llama-finetuning1.ipynb\<close>, that fine-tunes a
  causal language model with LoRA adapters on 4-bit weights.  Its functions are
  embedded cell by cell.  What the libraries answer (torch, pynvml, transformers, peft,
  datasets) is not code of the notebook: every library call takes its answer, a value
  or an exception, from a parameter, and the properties are proved for all answers.
\<close>

section \<open>Python exceptions\<close>

text \<open>
  The notebook relies on Python's exception classes and on the way \<^verbatim>\<open>except C\<close>
  matches every instance of a subclass of \<^verbatim>\<open>C\<close>.  Only the classes that the
  notebook and the libraries it calls can raise are listed; \<open>OutOfMemoryError\<close> is
  \<^verbatim>\<open>torch.cuda.OutOfMemoryError\<close> and \<open>NVMLError\<close> is \<^verbatim>\<open>pynvml.NVMLError\<close>.
\<close>

datatype exc_class =
    BaseException | KeyboardInterrupt | Exception
  | ImportError | ModuleNotFoundError
  | RuntimeError | NotImplementedError | OutOfMemoryError
  | OSError | ValueError | TypeError
  | ArithmeticError | OverflowError
  | LookupError | IndexError | KeyError
  | NVMLError

fun mro :: "exc_class \<Rightarrow> exc_class list" where
  "mro BaseException = [BaseException]"
| "mro KeyboardInterrupt = [KeyboardInterrupt, BaseException]"
| "mro Exception = [Exception, BaseException]"
| "mro ImportError = [ImportError, Exception, BaseException]"
| "mro ModuleNotFoundError = [ModuleNotFoundError, ImportError, Exception, BaseException]"
| "mro RuntimeError = [RuntimeError, Exception, BaseException]"
| "mro NotImplementedError = [NotImplementedError, RuntimeError, Exception, BaseException]"
| "mro OutOfMemoryError = [OutOfMemoryError, RuntimeError, Exception, BaseException]"
| "mro OSError = [OSError, Exception, BaseException]"
| "mro ValueError = [ValueError, Exception, BaseException]"
| "mro TypeError = [TypeError, Exception, BaseException]"
| "mro ArithmeticError = [ArithmeticError, Exception, BaseException]"
| "mro OverflowError = [OverflowError, ArithmeticError, Exception, BaseException]"
| "mro LookupError = [LookupError, Exception, BaseException]"
| "mro IndexError = [IndexError, LookupError, Exception, BaseException]"
| "mro KeyError = [KeyError, LookupError, Exception, BaseException]"
| "mro NVMLError = [NVMLError, Exception, BaseException]"

datatype exn = Exn (exc_cls: exc_class) (exc_msg: string)

definition isinstance :: "exn \<Rightarrow> exc_class \<Rightarrow> bool" where
  "isinstance e c = (c \<in> set (mro (exc_cls e)))"

section \<open>Effects: a log of external calls, and computations that may raise\<close>

text \<open>
  Every call the notebook makes into a library, every line it prints and every
  environment variable it sets is an entry of a log, in program order, together with
  the exception the call raised, if any.  Messages are kept structured; the
  formatting of numbers inside the f-strings is not modelled.
\<close>

record meminfo =
  mem_total :: nat
  mem_used :: nat
  mem_free :: nat

datatype message =
    Gpu_total_memory nat
  | Gpu_used_memory nat
  | Gpu_free_memory nat
  | Error_getting_gpu_memory_info exn
  | Nvml_not_available
  | Allocated_gpu_memory nat
  | Cached_gpu_memory nat
  | Training_interrupted exn

datatype call =
    Cuda_empty_cache
  | Cuda_reset_peak_memory_stats
  | Set_float32_matmul_precision string
  | Import_pynvml
  | NvmlInit
  | NvmlDeviceGetHandleByIndex nat
  | NvmlDeviceGetMemoryInfo nat
  | NvmlShutdown
  | Cuda_memory_allocated
  | Cuda_memory_reserved
  | Print message
  | Environ_set string string
  | BitsAndBytesConfig
  | AutoModelForCausalLM_from_pretrained string
  | AutoTokenizer_from_pretrained string
  | LoraConfig
  | Prepare_model_for_kbit_training
  | Get_peft_model
  | Load_dataset string string
  | Dataset_shuffle "nat option"
  | Dataset_map nat nat
  | Len_times_0_8 nat
  | Dataset_select nat nat
  | TrainingArguments string string
  | DataCollatorForLanguageModeling
  | Trainer string string
  | Trainer_train
  | Trainer_save_model string

datatype event = Ev (ev_call: call) (ev_raised: "exn option")

type_synonym 'a comp = "event list \<Rightarrow> (exn + 'a) \<times> event list"

definition ret :: "'a \<Rightarrow> 'a comp" where
  "ret x s = (Inr x, s)"

definition bnd :: "'a comp \<Rightarrow> ('a \<Rightarrow> 'b comp) \<Rightarrow> 'b comp" where
  "bnd m f s = (case m s of (Inl e, s') \<Rightarrow> (Inl e, s') | (Inr x, s') \<Rightarrow> f x s')"

definition raised :: "exn + 'a \<Rightarrow> exn option" where
  "raised out = (case out of Inl e \<Rightarrow> Some e | Inr _ \<Rightarrow> None)"

definition call :: "call \<Rightarrow> exn + 'a \<Rightarrow> 'a comp" where
  "call c out s = (out, s @ [Ev c (raised out)])"

definition print :: "message \<Rightarrow> unit comp" where
  "print m = call (Print m) (Inr ())"

text \<open>
  \<^verbatim>\<open>try: body  except C as e: handler\<close> runs the handler, in the state the body left,
  when the body raised an instance of \<open>C\<close>; any other exception goes on.
  \<^verbatim>\<open>try: body  finally: fin\<close> runs \<open>fin\<close> whatever the body did; an exception of
  \<open>fin\<close> replaces the outcome of the body.
\<close>

definition try_except :: "'a comp \<Rightarrow> exc_class \<Rightarrow> (exn \<Rightarrow> 'a comp) \<Rightarrow> 'a comp" where
  "try_except body c handler s =
     (case body s of
        (Inl e, s') \<Rightarrow> if isinstance e c then handler e s' else (Inl e, s')
      | (Inr x, s') \<Rightarrow> (Inr x, s'))"

definition try_finally :: "'a comp \<Rightarrow> unit comp \<Rightarrow> 'a comp" where
  "try_finally body fin s =
     (case body s of (out, s') \<Rightarrow>
        (case fin s' of (Inl e, s'') \<Rightarrow> (Inl e, s'') | (Inr _, s'') \<Rightarrow> (out, s'')))"

section \<open>Cell 3: \<^verbatim>\<open>optimize_memory\<close>\<close>

text \<open>
  What torch, the import system and NVML answer is not decided by the notebook: each
  answer is a parameter, either a value or the exception raised.
\<close>

record sys_lib =
  cuda_empty_cache :: "exn + unit"
  cuda_reset_peak_memory_stats :: "exn + unit"
  set_float32_matmul_precision :: "string \<Rightarrow> exn + unit"
  import_pynvml :: "exn + unit"
  nvmlInit :: "exn + unit"
  nvmlDeviceGetHandleByIndex :: "nat \<Rightarrow> exn + nat"
  nvmlDeviceGetMemoryInfo :: "nat \<Rightarrow> exn + meminfo"
  nvmlShutdown :: "exn + unit"
  cuda_memory_allocated :: "exn + nat"
  cuda_memory_reserved :: "exn + nat"

definition print_gpu_utilization :: "sys_lib \<Rightarrow> unit comp" where
  "print_gpu_utilization S =
     try_except
       (bnd (call Import_pynvml (import_pynvml S)) (\<lambda>_.
        bnd (call NvmlInit (nvmlInit S)) (\<lambda>_.
        try_finally
          (try_except
             (bnd (call (NvmlDeviceGetHandleByIndex 0) (nvmlDeviceGetHandleByIndex S 0)) (\<lambda>handle.
              bnd (call (NvmlDeviceGetMemoryInfo handle) (nvmlDeviceGetMemoryInfo S handle)) (\<lambda>info.
              bnd (print (Gpu_total_memory (mem_total info))) (\<lambda>_.
              bnd (print (Gpu_used_memory (mem_used info))) (\<lambda>_.
              print (Gpu_free_memory (mem_free info)))))))
             Exception
             (\<lambda>device_error. print (Error_getting_gpu_memory_info device_error)))
          (call NvmlShutdown (nvmlShutdown S)))))
       ImportError
       (\<lambda>_.
        bnd (print Nvml_not_available) (\<lambda>_.
        bnd (call Cuda_memory_allocated (cuda_memory_allocated S)) (\<lambda>allocated.
        bnd (print (Allocated_gpu_memory allocated)) (\<lambda>_.
        bnd (call Cuda_memory_reserved (cuda_memory_reserved S)) (\<lambda>reserved.
        print (Cached_gpu_memory reserved))))))"

definition optimize_memory :: "sys_lib \<Rightarrow> unit comp" where
  "optimize_memory S =
     bnd (call Cuda_empty_cache (cuda_empty_cache S)) (\<lambda>_.
     bnd (call Cuda_reset_peak_memory_stats (cuda_reset_peak_memory_stats S)) (\<lambda>_.
     bnd (call (Set_float32_matmul_precision ''medium'') (set_float32_matmul_precision S ''medium'')) (\<lambda>_.
     bnd (print_gpu_utilization S) (\<lambda>_.
     call (Environ_set ''PYTORCH_CUDA_ALLOC_CONF''
             ''expandable_segments:True,max_split_size_mb:128'') (Inr ())))))"

section \<open>Library objects the notebook configures\<close>

text \<open>
  Floating-point hyperparameters are carried as the literals of the source.  The
  model and the trainer are opaque (type variables): the notebook only passes them
  on.  The \<^verbatim>\<open>compute_metrics\<close> closure is handed to the trainer and never called by
  the notebook itself; it is not modelled.
\<close>

type_synonym float_literal = string

record bnb_config =
  load_in_4bit :: bool
  bnb_4bit_quant_type :: string
  bnb_4bit_compute_dtype :: string
  bnb_4bit_use_double_quant :: bool

record model_kwargs =
  quantization_config :: bnb_config
  device_map :: string
  torch_dtype :: string
  low_cpu_mem_usage :: bool
  attn_implementation :: string
  use_cache :: bool

record tokenizer_kwargs =
  use_fast :: bool
  add_eos_token :: bool
  add_bos_token :: bool

record lora_config =
  task_type :: string
  lora_r :: nat
  lora_alpha :: nat
  lora_dropout :: float_literal
  target_modules :: "string list"

record training_args =
  output_dir :: string
  per_device_train_batch_size :: nat
  gradient_accumulation_steps :: nat
  gradient_checkpointing :: bool
  learning_rate :: float_literal
  weight_decay :: float_literal
  max_grad_norm :: float_literal
  max_steps :: nat
  fp16 :: bool
  bf16 :: bool
  optim :: string
  logging_dir :: string
  logging_strategy :: string
  logging_steps :: nat
  evaluation_strategy :: string
  eval_steps :: nat
  save_total_limit :: nat
  load_best_model_at_end :: bool
  metric_for_best_model :: string
  dataloader_num_workers :: nat
  dataloader_prefetch_factor :: nat

text \<open>
  A tokenizer object: the three attributes the notebook reads or writes, and the two
  behaviours of the library object that tokenisation uses.  \<open>encode_ids text limit\<close>
  is the list of token ids that the library returns for \<open>text\<close>, special tokens
  included, when it is asked to truncate to \<open>limit\<close>, if a limit is given.  How long
  that list is, is up to the library.
\<close>

record tokenizer =
  eos_token :: "string option"
  pad_token :: "string option"
  padding_side :: string
  convert_tokens_to_ids :: "string \<Rightarrow> nat"
  encode_ids :: "string \<Rightarrow> nat option \<Rightarrow> nat list"

record encoding =
  input_ids :: "nat list"
  attention_mask :: "nat list"

record data_collator =
  dc_tokenizer :: tokenizer
  dc_mlm :: bool

text \<open>A dataset is the list of its rows; a raw row has a \<^verbatim>\<open>text\<close> column and more.\<close>

record row =
  text_col :: string

record imdb_row = row +
  label :: int

record ('m, 'tr) hf_lib =
  bits_and_bytes_config :: "bnb_config \<Rightarrow> exn + unit"
  auto_model_from_pretrained :: "string \<Rightarrow> model_kwargs \<Rightarrow> exn + 'm"
  auto_tokenizer_from_pretrained :: "string \<Rightarrow> tokenizer_kwargs \<Rightarrow> exn + tokenizer"
  lora_config_init :: "lora_config \<Rightarrow> exn + unit"
  prepare_model_for_kbit_training :: "'m \<Rightarrow> exn + 'm"
  get_peft_model :: "'m \<Rightarrow> lora_config \<Rightarrow> exn + 'm"
  load_dataset :: "string \<Rightarrow> string \<Rightarrow> exn + imdb_row list"
  rng_permutation :: "nat \<Rightarrow> nat \<Rightarrow> nat list"
  numpy_global_seed :: nat
  training_arguments_init :: "training_args \<Rightarrow> exn + unit"
  data_collator_init :: "data_collator \<Rightarrow> exn + unit"
  trainer_init :: "'m \<Rightarrow> training_args \<Rightarrow> encoding list \<Rightarrow> encoding list \<Rightarrow> data_collator
                     \<Rightarrow> exn + 'tr"
  trainer_train :: "'tr \<Rightarrow> 'tr \<times> (exn + unit)"
  trainer_save_model :: "'tr \<Rightarrow> string \<Rightarrow> exn + unit"

section \<open>Library operations with a fixed meaning\<close>

text \<open>
  These follow the documented behaviour of \<^verbatim>\<open>datasets\<close> and \<^verbatim>\<open>transformers\<close>, not
  code of the notebook.  \<open>rng_permutation seed n\<close> above is the permutation of
  \<open>range(n)\<close> drawn by a generator that was created from \<open>seed\<close>
  (\<^verbatim>\<open>np.random.default_rng(seed).permutation(n)\<close>), a function of the seed and the
  length.  What changes from one run to the next is the state of numpy's global
  generator, from which \<^verbatim>\<open>Dataset.shuffle\<close> takes its seed when the caller gives
  none: that is \<open>numpy_global_seed\<close>.
\<close>

fun map_exn :: "('a \<Rightarrow> exn + 'b) \<Rightarrow> 'a list \<Rightarrow> exn + 'b list" where
  "map_exn f [] = Inr []"
| "map_exn f (x # xs) =
     (case f x of
        Inl e \<Rightarrow> Inl e
      | Inr y \<Rightarrow> (case map_exn f xs of Inl e \<Rightarrow> Inl e | Inr ys \<Rightarrow> Inr (y # ys)))"

definition select :: "'a list \<Rightarrow> nat list \<Rightarrow> exn + 'a list" where
  "select ds indices =
     (if \<forall>i \<in> set indices. i < length ds then Inr (map (\<lambda>i. ds ! i) indices)
      else Inl (Exn IndexError ''Index out of range for dataset''))"

definition shuffle :: "('m, 'tr) hf_lib \<Rightarrow> nat option \<Rightarrow> 'a list \<Rightarrow> exn + 'a list" where
  "shuffle H seed ds =
     (let generator_seed = (case seed of None \<Rightarrow> numpy_global_seed H | Some k \<Rightarrow> k)
      in select ds (rng_permutation H generator_seed (length ds)))"

definition shard :: "nat \<Rightarrow> nat \<Rightarrow> 'a list \<Rightarrow> 'a list" where
  "shard num_shards index ds =
     (let d = length ds div num_shards; m = length ds mod num_shards;
          start = d * index + min index m;
          stop = start + d + (if index < m then 1 else 0)
      in take (stop - start) (drop start ds))"

function batches :: "nat \<Rightarrow> 'a list \<Rightarrow> 'a list list" where
  "batches batch_size ds =
     (if ds = [] then []
      else if batch_size = 0 then [ds]
      else take batch_size ds # batches batch_size (drop batch_size ds))"
  by pat_completeness auto
termination
  by (relation "measure (\<lambda>(b, ds). length ds)") auto

declare batches.simps [simp del]

definition map_batched ::
  "('a list \<Rightarrow> exn + 'b list) \<Rightarrow> nat \<Rightarrow> nat \<Rightarrow> 'a list \<Rightarrow> exn + 'b list" where
  "map_batched f num_proc batch_size ds =
     (let procs = min num_proc (length ds);
          work = concat (map (\<lambda>rank. batches batch_size (shard procs rank ds)) [0..<procs])
      in case map_exn f work of Inl e \<Rightarrow> Inl e | Inr outs \<Rightarrow> Inr (concat outs))"

definition pad_encoding :: "tokenizer \<Rightarrow> nat \<Rightarrow> nat list \<Rightarrow> exn + encoding" where
  "pad_encoding tok max_length ids =
     (if length ids = max_length
      then Inr \<lparr>input_ids = ids, attention_mask = replicate (length ids) 1\<rparr>
      else
        let difference = max_length - length ids;
            pad_token_id = (case pad_token tok of Some t \<Rightarrow> convert_tokens_to_ids tok t | None \<Rightarrow> 0)
        in if padding_side tok = ''right''
           then Inr \<lparr>input_ids = ids @ replicate difference pad_token_id,
                     attention_mask = replicate (length ids) 1 @ replicate difference 0\<rparr>
           else if padding_side tok = ''left''
           then Inr \<lparr>input_ids = replicate difference pad_token_id @ ids,
                     attention_mask = replicate difference 0 @ replicate (length ids) 1\<rparr>
           else Inl (Exn ValueError ''Invalid padding strategy''))"

definition same_length :: "encoding list \<Rightarrow> bool" where
  "same_length encs =
     (case encs of [] \<Rightarrow> True
      | e # es \<Rightarrow> list_all (\<lambda>x. length (input_ids x) = length (input_ids e)) es)"

definition tokenizer_call ::
  "tokenizer \<Rightarrow> string list \<Rightarrow> bool \<Rightarrow> string \<Rightarrow> nat \<Rightarrow> string \<Rightarrow> exn + encoding list" where
  "tokenizer_call tok texts truncation padding max_length return_tensors =
     (if padding = ''max_length'' \<and> pad_token tok = None
      then Inl (Exn ValueError ''Asking to pad but the tokenizer does not have a padding token'')
      else
        case map_exn (\<lambda>t.
               let ids = encode_ids tok t (if truncation then Some max_length else None)
               in if padding = ''max_length'' then pad_encoding tok max_length ids
                  else Inr \<lparr>input_ids = ids, attention_mask = replicate (length ids) 1\<rparr>) texts of
          Inl e \<Rightarrow> Inl e
        | Inr encs \<Rightarrow>
            if return_tensors = ''pt'' \<and> \<not> same_length encs
            then Inl (Exn ValueError ''Unable to create tensor'')
            else Inr encs)"

subsection \<open>\<^verbatim>\<open>int(len(dataset) * 0.8)\<close> in double precision\<close>

text \<open>
  Python converts the length to a double, multiplies by the double nearest to 0.8,
  which is \<open>3602879701896397 / 2 ^ 52\<close>, rounds the product to 53 significant bits
  (ties to even) and truncates.  All values involved are positive and far from the
  subnormal range, so a double is kept as an integer significand and a shift.
\<close>

fun bit_length :: "nat \<Rightarrow> nat" where
  "bit_length n = (if n = 0 then 0 else Suc (bit_length (n div 2)))"

declare bit_length.simps [simp del]

definition round53 :: "nat \<Rightarrow> nat \<times> nat" where
  "round53 m =
     (let s = bit_length m - 53; q = m div 2 ^ s; r = m mod 2 ^ s
      in if 2 ^ s < 2 * r \<or> (2 * r = 2 ^ s \<and> odd q) then (q + 1, s) else (q, s))"

definition float_of_len :: "nat \<Rightarrow> exn + nat" where
  "float_of_len n =
     (case round53 n of (q, s) \<Rightarrow>
        if 2 ^ 1024 \<le> q * 2 ^ s then Inl (Exn OverflowError ''int too large to convert to float'')
        else Inr (q * 2 ^ s))"

definition int_len_times_0_8 :: "nat \<Rightarrow> exn + nat" where
  "int_len_times_0_8 n =
     (case float_of_len n of
        Inl e \<Rightarrow> Inl e
      | Inr f \<Rightarrow> (case round53 (f * 3602879701896397) of (q, s) \<Rightarrow> Inr (q * 2 ^ s div 2 ^ 52)))"

section \<open>Cells 4 to 7: model, tokenizer, dataset and training arguments\<close>

definition bnb_config :: bnb_config where
  "bnb_config =
     \<lparr>load_in_4bit = True, bnb_4bit_quant_type = ''nf4'',
      bnb_4bit_compute_dtype = ''torch.bfloat16'',
      bnb_4bit_use_double_quant = True\<rparr>"

definition model_kwargs :: model_kwargs where
  "model_kwargs =
     \<lparr>quantization_config = bnb_config, device_map = ''auto'',
      torch_dtype = ''torch.bfloat16'', low_cpu_mem_usage = True,
      attn_implementation = ''flash_attention_2'', use_cache = False\<rparr>"

definition load_model_with_minimal_memory :: "('m, 'tr) hf_lib \<Rightarrow> string \<Rightarrow> 'm comp" where
  "load_model_with_minimal_memory H model_id =
     bnd (call BitsAndBytesConfig (bits_and_bytes_config H bnb_config)) (\<lambda>_.
     call (AutoModelForCausalLM_from_pretrained model_id)
       (auto_model_from_pretrained H model_id model_kwargs))"

definition tokenizer_kwargs :: tokenizer_kwargs where
  "tokenizer_kwargs = \<lparr>use_fast = True, add_eos_token = True, add_bos_token = True\<rparr>"

definition create_efficient_tokenizer :: "('m, 'tr) hf_lib \<Rightarrow> string \<Rightarrow> tokenizer comp" where
  "create_efficient_tokenizer H model_id =
     bnd (call (AutoTokenizer_from_pretrained model_id)
            (auto_tokenizer_from_pretrained H model_id tokenizer_kwargs)) (\<lambda>tok.
     let tok = tok\<lparr>pad_token := eos_token tok\<rparr>;
         tok = tok\<lparr>padding_side := ''right''\<rparr>
     in ret tok)"

definition tokenize_function :: "tokenizer \<Rightarrow> nat \<Rightarrow> 'a row_scheme list \<Rightarrow> exn + encoding list" where
  "tokenize_function tok max_length examples =
     tokenizer_call tok (map text_col examples) True ''max_length'' max_length ''pt''"

definition create_efficient_dataset ::
  "('m, 'tr) hf_lib \<Rightarrow> 'a row_scheme list \<Rightarrow> tokenizer \<Rightarrow> nat option \<Rightarrow> encoding list comp" where
  "create_efficient_dataset H dataset tok max_length_arg =
     (let max_length = (case max_length_arg of None \<Rightarrow> 512 | Some n \<Rightarrow> n)
      in bnd (call (Dataset_shuffle (Some 42)) (shuffle H (Some 42) dataset)) (\<lambda>dataset.
         call (Dataset_map 4 1000) (map_batched (tokenize_function tok max_length) 4 1000 dataset)))"

definition memory_optimized_training_args :: training_args where
  "memory_optimized_training_args =
     \<lparr>output_dir = ''./llama2_finetune'',
      per_device_train_batch_size = 4,
      gradient_accumulation_steps = 250,
      gradient_checkpointing = True,
      learning_rate = ''1e-4'',
      weight_decay = ''0.01'',
      max_grad_norm = ''0.3'',
      max_steps = 50,
      fp16 = True,
      bf16 = False,
      optim = ''adamw_torch_fused'',
      logging_dir = ''./logs'',
      logging_strategy = ''steps'',
      logging_steps = 10,
      evaluation_strategy = ''steps'',
      eval_steps = 50,
      save_total_limit = 3,
      load_best_model_at_end = True,
      metric_for_best_model = ''eval_loss'',
      dataloader_num_workers = 4,
      dataloader_prefetch_factor = 2\<rparr>"

definition create_memory_optimized_training_args :: "('m, 'tr) hf_lib \<Rightarrow> training_args comp" where
  "create_memory_optimized_training_args H =
     bnd (call (TrainingArguments (output_dir memory_optimized_training_args)
                  (logging_dir memory_optimized_training_args))
            (training_arguments_init H memory_optimized_training_args)) (\<lambda>_.
     ret memory_optimized_training_args)"

section \<open>Cell 10: \<^verbatim>\<open>train_with_memory_optimization\<close>\<close>

text \<open>
  The two \<^verbatim>\<open>select\<close> statements that split the tokenized dataset.  The expression
  \<^verbatim>\<open>int(len(tokenized_dataset)*0.8)\<close> is evaluated once for each statement.
\<close>

definition train_eval_split :: "'a list \<Rightarrow> ('a list \<times> 'a list) comp" where
  "train_eval_split tokenized_dataset =
     bnd (call (Len_times_0_8 (length tokenized_dataset))
            (int_len_times_0_8 (length tokenized_dataset))) (\<lambda>k.
     bnd (call (Dataset_select 0 k) (select tokenized_dataset [0..<k])) (\<lambda>train_dataset.
     bnd (call (Len_times_0_8 (length tokenized_dataset))
            (int_len_times_0_8 (length tokenized_dataset))) (\<lambda>k'.
     bnd (call (Dataset_select k' (length tokenized_dataset))
            (select tokenized_dataset [k'..<length tokenized_dataset])) (\<lambda>eval_dataset.
     ret (train_dataset, eval_dataset)))))"

text \<open>
  \<^verbatim>\<open>trainer.train()\<close> changes the trainer object whether it returns or raises:
  \<open>trainer_train H trainer\<close> gives the trainer afterwards and the outcome of the call.
  The \<^verbatim>\<open>return\<close> inside the handler is the value \<open>Some\<close> of the \<^verbatim>\<open>try\<close> statement;
  \<open>None\<close> means that control goes on after it.
\<close>

definition MODEL_ID :: string where
  "MODEL_ID = ''meta-llama/Llama-2-7b-hf''"

definition peft_config :: lora_config where
  "peft_config =
     \<lparr>task_type = ''CAUSAL_LM'', lora_r = 16, lora_alpha = 32, lora_dropout = ''0.1'',
      target_modules = [''q_proj'', ''k_proj'', ''v_proj'', ''o_proj'',
                        ''gate_proj'', ''down_proj'', ''up_proj'']\<rparr>"

definition train_with_memory_optimization :: "sys_lib \<Rightarrow> ('m, 'tr) hf_lib \<Rightarrow> 'tr comp" where
  "train_with_memory_optimization S H =
     bnd (optimize_memory S) (\<lambda>_.
     bnd (load_model_with_minimal_memory H MODEL_ID) (\<lambda>model.
     bnd (create_efficient_tokenizer H MODEL_ID) (\<lambda>tokenizer.
     bnd (call LoraConfig (lora_config_init H peft_config)) (\<lambda>_.
     bnd (call Prepare_model_for_kbit_training (prepare_model_for_kbit_training H model)) (\<lambda>model.
     bnd (call Get_peft_model (get_peft_model H model peft_config)) (\<lambda>model.
     bnd (call (Load_dataset ''imdb'' ''train+test'') (load_dataset H ''imdb'' ''train+test''))
       (\<lambda>dataset.
     bnd (create_efficient_dataset H dataset tokenizer None) (\<lambda>tokenized_dataset.
     bnd (train_eval_split tokenized_dataset) (\<lambda>(train_dataset, eval_dataset).
     bnd (create_memory_optimized_training_args H) (\<lambda>training_args.
     let data_collator = \<lparr>dc_tokenizer = tokenizer, dc_mlm = False\<rparr> in
     bnd (call DataCollatorForLanguageModeling (data_collator_init H data_collator)) (\<lambda>_.
     bnd (call (Trainer (output_dir training_args) (logging_dir training_args))
            (trainer_init H model training_args train_dataset eval_dataset data_collator))
       (\<lambda>trainer.
     case trainer_train H trainer of (trainer, outcome) \<Rightarrow>
     bnd (try_except
            (bnd (call Trainer_train outcome) (\<lambda>_. ret None))
            RuntimeError
            (\<lambda>e. bnd (print (Training_interrupted e)) (\<lambda>_.
                  bnd (call (Trainer_save_model ''./partial_model'')
                         (trainer_save_model H trainer ''./partial_model'')) (\<lambda>_.
                  ret (Some trainer))))) (\<lambda>returned.
     case returned of
       Some result \<Rightarrow> ret result
     | None \<Rightarrow>
         bnd (call (Trainer_save_model ''./final_llama2_model'')
                (trainer_save_model H trainer ''./final_llama2_model'')) (\<lambda>_.
         ret trainer))))))))))))))"

section \<open>Cell 13: the plotted loss series\<close>

text \<open>
  \<^verbatim>\<open>[entry['loss'] for entry in trainer.state.log_history if 'loss' in entry]\<close>:
  a log entry is a dictionary; the comprehension is the loop that appends.
\<close>

type_synonym 'v log_entry = "string \<rightharpoonup> 'v"

definition contains :: "'v log_entry \<Rightarrow> string \<Rightarrow> bool" where
  "contains entry key = (entry key \<noteq> None)"

definition getitem :: "'v log_entry \<Rightarrow> string \<Rightarrow> exn + 'v" where
  "getitem entry key = (case entry key of None \<Rightarrow> Inl (Exn KeyError key) | Some v \<Rightarrow> Inr v)"

fun training_losses_from :: "'v list \<Rightarrow> 'v log_entry list \<Rightarrow> exn + 'v list" where
  "training_losses_from acc [] = Inr acc"
| "training_losses_from acc (entry # log_history) =
     (if contains entry ''loss''
      then (case getitem entry ''loss'' of
              Inl e \<Rightarrow> Inl e
            | Inr v \<Rightarrow> training_losses_from (acc @ [v]) log_history)
      else training_losses_from acc log_history)"

definition training_losses :: "'v log_entry list \<Rightarrow> exn + 'v list" where
  "training_losses log_history = training_losses_from [] log_history"

section \<open>Vocabulary of the properties\<close>

text \<open>The ten stages of the pipeline, and the stage each logged call belongs to.\<close>

datatype stage =
    Memory_optimization | Model_load | Tokenizer_load | Lora_model_construction
  | Dataset_load_and_tokenization | Train_eval_split | Arguments_and_collator
  | Trainer_construction | Training_run | Model_save


fun stage_of :: "call \<Rightarrow> stage" where
  "stage_of BitsAndBytesConfig = Model_load"
| "stage_of (AutoModelForCausalLM_from_pretrained _) = Model_load"
| "stage_of (AutoTokenizer_from_pretrained _) = Tokenizer_load"
| "stage_of LoraConfig = Lora_model_construction"
| "stage_of Prepare_model_for_kbit_training = Lora_model_construction"
| "stage_of Get_peft_model = Lora_model_construction"
| "stage_of (Load_dataset _ _) = Dataset_load_and_tokenization"
| "stage_of (Dataset_shuffle _) = Dataset_load_and_tokenization"
| "stage_of (Dataset_map _ _) = Dataset_load_and_tokenization"
| "stage_of (Len_times_0_8 _) = Train_eval_split"
| "stage_of (Dataset_select _ _) = Train_eval_split"
| "stage_of (TrainingArguments _ _) = Arguments_and_collator"
| "stage_of DataCollatorForLanguageModeling = Arguments_and_collator"
| "stage_of (Trainer _ _) = Trainer_construction"
| "stage_of Trainer_train = Training_run"
| "stage_of (Print (Training_interrupted _)) = Training_run"
| "stage_of (Trainer_save_model _) = Model_save"
| "stage_of _ = Memory_optimization"


text \<open>The names a logged call may carry.\<close>

definition uses_fixed_names :: "event \<Rightarrow> bool" where
  "uses_fixed_names ev =
     (case ev_call ev of
        AutoModelForCausalLM_from_pretrained model_id \<Rightarrow> model_id = ''meta-llama/Llama-2-7b-hf''
      | AutoTokenizer_from_pretrained model_id \<Rightarrow> model_id = ''meta-llama/Llama-2-7b-hf''
      | Load_dataset name split \<Rightarrow> name = ''imdb'' \<and> split = ''train+test''
      | TrainingArguments out_dir log_dir \<Rightarrow> out_dir = ''./llama2_finetune'' \<and> log_dir = ''./logs''
      | Trainer out_dir log_dir \<Rightarrow> out_dir = ''./llama2_finetune'' \<and> log_dir = ''./logs''
      | Trainer_save_model path \<Rightarrow> path = ''./final_llama2_model'' \<or> path = ''./partial_model''
      | _ \<Rightarrow> True)"

text \<open>
  The calls that name a model, a dataset or a directory, and the six of them that a
  complete run makes, in order; the last one saves the model to \<open>path\<close>.
\<close>

definition names_a_resource :: "event \<Rightarrow> bool" where
  "names_a_resource ev =
     (case ev_call ev of
        AutoModelForCausalLM_from_pretrained _ \<Rightarrow> True
      | AutoTokenizer_from_pretrained _ \<Rightarrow> True
      | Load_dataset _ _ \<Rightarrow> True
      | TrainingArguments _ _ \<Rightarrow> True
      | Trainer _ _ \<Rightarrow> True
      | Trainer_save_model _ \<Rightarrow> True
      | _ \<Rightarrow> False)"

definition named_calls :: "string \<Rightarrow> call list" where
  "named_calls path =
     [AutoModelForCausalLM_from_pretrained ''meta-llama/Llama-2-7b-hf'',
      AutoTokenizer_from_pretrained ''meta-llama/Llama-2-7b-hf'',
      Load_dataset ''imdb'' ''train+test'',
      TrainingArguments ''./llama2_finetune'' ''./logs'',
      Trainer ''./llama2_finetune'' ''./logs'',
      Trainer_save_model path]"

text \<open>
  The failures that some handler of the notebook deals with: a \<open>RuntimeError\<close> of
  the training call; inside the \<^verbatim>\<open>try\<close> statement of \<^verbatim>\<open>print_gpu_utilization\<close>, an
  \<open>ImportError\<close>, and any failure of the device query (caught when it is an
  \<open>Exception\<close>, followed by the \<^verbatim>\<open>finally\<close> clause in every case).
\<close>

definition handled_somewhere :: "call \<Rightarrow> exn \<Rightarrow> bool" where
  "handled_somewhere c e =
     (case c of
        Trainer_train \<Rightarrow> isinstance e RuntimeError
      | Import_pynvml \<Rightarrow> isinstance e ImportError
      | NvmlInit \<Rightarrow> isinstance e ImportError
      | NvmlShutdown \<Rightarrow> isinstance e ImportError
      | NvmlDeviceGetHandleByIndex _ \<Rightarrow> True
      | NvmlDeviceGetMemoryInfo _ \<Rightarrow> True
      | _ \<Rightarrow> False)"

text \<open>
  A logged call that failed with an exception no handler is written for, and the
  shape of a log in which such a failure can only be the last entry and is then the
  outcome of the computation.
\<close>

definition unhandled_failure :: "event \<Rightarrow> bool" where
  "unhandled_failure ev =
     (case ev_raised ev of None \<Rightarrow> False | Some e \<Rightarrow> \<not> handled_somewhere (ev_call ev) e)"

definition propagates :: "exn + 'a \<Rightarrow> event list \<Rightarrow> bool" where
  "propagates r es =
     (list_all (\<lambda>ev. \<not> unhandled_failure ev) (butlast es) \<and>
      (es \<noteq> [] \<and> unhandled_failure (last es) \<longrightarrow> raised r = ev_raised (last es)))"

text \<open>
  What the notebook relies on from the tokenizer at the length it asks for: asked to
  truncate to \<open>n\<close>, the tokenizer returns at most \<open>n\<close> token ids.  A tokenizer that
  adds a begin and an end marker to every sequence does so from \<open>n = 2\<close> on; nothing
  is required of it at other lengths.  And the row that padding on the right produces.
\<close>

definition truncates_to :: "tokenizer \<Rightarrow> nat \<Rightarrow> bool" where
  "truncates_to tok n = (\<forall>text. length (encode_ids tok text (Some n)) \<le> n)"

definition padded_row :: "tokenizer \<Rightarrow> nat \<Rightarrow> string \<Rightarrow> encoding" where
  "padded_row tok n text_in =
     (let ids = encode_ids tok text_in (Some n);
          pad_token_id = (case pad_token tok of Some t \<Rightarrow> convert_tokens_to_ids tok t | None \<Rightarrow> 0)
      in \<lparr>input_ids = ids @ replicate (n - length ids) pad_token_id,
          attention_mask = replicate (length ids) 1 @ replicate (n - length ids) 0\<rparr>)"

text \<open>Where the contiguous shard of a worker process starts.\<close>

definition shard_start :: "nat \<Rightarrow> nat \<Rightarrow> nat \<Rightarrow> nat" where
  "shard_start n p i = n div p * i + min i (n mod p)"

section \<open>Sample environments\<close>

text \<open>
  Concrete library behaviours on which the definitions can be run: a machine where
  every call succeeds, a five-row dataset, and a tokenizer that maps characters to
  their codes between a begin marker 1 and an end marker 2.  Truncation shortens the
  characters and keeps the two markers; asked for fewer than two ids, the tokenizer
  leaves the sequence as it is.  The sample generator reverses on an even seed and
  keeps the order on an odd one.
\<close>

definition sample_sys :: sys_lib where
  "sample_sys =
     \<lparr>cuda_empty_cache = Inr (), cuda_reset_peak_memory_stats = Inr (),
      set_float32_matmul_precision = (\<lambda>_. Inr ()),
      import_pynvml = Inr (), nvmlInit = Inr (),
      nvmlDeviceGetHandleByIndex = (\<lambda>i. Inr (7 + i)),
      nvmlDeviceGetMemoryInfo = (\<lambda>_. Inr \<lparr>mem_total = 16384, mem_used = 4096, mem_free = 12288\<rparr>),
      nvmlShutdown = Inr (),
      cuda_memory_allocated = Inr 1024, cuda_memory_reserved = Inr 2048\<rparr>"

definition sample_tokenizer :: tokenizer where
  "sample_tokenizer =
     \<lparr>eos_token = Some ''EOS'', pad_token = None, padding_side = ''left'',
      convert_tokens_to_ids = (\<lambda>t. if t = ''EOS'' then 2 else if t = ''BOS'' then 1 else 0),
      encode_ids = (\<lambda>text limit.
         let ids = map (\<lambda>c. of_char c) text
         in case limit of
              None \<Rightarrow> 1 # ids @ [2]
            | Some n \<Rightarrow> if n < 2 then 1 # ids @ [2] else 1 # take (n - 2) ids @ [2])\<rparr>"

definition sample_rows :: "imdb_row list" where
  "sample_rows =
     [\<lparr>text_col = ''good'', label = 1\<rparr>, \<lparr>text_col = ''bad'', label = 0\<rparr>,
      \<lparr>text_col = ''a fine film'', label = 1\<rparr>, \<lparr>text_col = [], label = 0\<rparr>,
      \<lparr>text_col = ''dull'', label = 0\<rparr>]"

definition sample_hf :: "(string, nat) hf_lib" where
  "sample_hf =
     \<lparr>bits_and_bytes_config = (\<lambda>_. Inr ()),
      auto_model_from_pretrained = (\<lambda>model_id _. Inr model_id),
      auto_tokenizer_from_pretrained = (\<lambda>_ _. Inr sample_tokenizer),
      lora_config_init = (\<lambda>_. Inr ()),
      prepare_model_for_kbit_training = (\<lambda>m. Inr (m @ ''+kbit'')),
      get_peft_model = (\<lambda>m _. Inr (m @ ''+lora'')),
      load_dataset = (\<lambda>_ _. Inr sample_rows),
      rng_permutation = (\<lambda>seed n. if even seed then rev [0..<n] else [0..<n]),
      numpy_global_seed = 7,
      training_arguments_init = (\<lambda>_. Inr ()),
      data_collator_init = (\<lambda>_. Inr ()),
      trainer_init = (\<lambda>_ _ train_dataset _ _. Inr (length train_dataset)),
      trainer_train = (\<lambda>t. (t + 50, Inr ())),
      trainer_save_model = (\<lambda>_ _. Inr ())\<rparr>"

text \<open>
  Variations: a machine without the \<^verbatim>\<open>pynvml\<close> module, one where the module is there
  but the driver is not, one where the device query fails; a training run that hits
  the memory limit, the same on a full disk, and a hub that cannot be reached.
\<close>

definition sys_without_pynvml :: sys_lib where
  "sys_without_pynvml =
     sample_sys\<lparr>import_pynvml := Inl (Exn ModuleNotFoundError ''No module named pynvml'')\<rparr>"

definition sys_without_driver :: sys_lib where
  "sys_without_driver = sample_sys\<lparr>nvmlInit := Inl (Exn NVMLError ''Driver Not Loaded'')\<rparr>"

definition sys_query_fails :: sys_lib where
  "sys_query_fails =
     sample_sys\<lparr>nvmlDeviceGetMemoryInfo := (\<lambda>_. Inl (Exn NVMLError ''Unknown Error''))\<rparr>"

definition hf_out_of_memory :: "(string, nat) hf_lib" where
  "hf_out_of_memory =
     sample_hf\<lparr>trainer_train := (\<lambda>t. (t + 7, Inl (Exn OutOfMemoryError ''CUDA out of memory'')))\<rparr>"

definition hf_out_of_memory_disk_full :: "(string, nat) hf_lib" where
  "hf_out_of_memory_disk_full =
     hf_out_of_memory\<lparr>trainer_save_model := (\<lambda>_ _. Inl (Exn OSError ''No space left on device''))\<rparr>"

definition hf_hub_unreachable :: "(string, nat) hf_lib" where
  "hf_hub_unreachable =
     sample_hf\<lparr>load_dataset := (\<lambda>_ _. Inl (Exn OSError ''Connection error''))\<rparr>"

text \<open>
  The tokenizer that the sample pipeline works with; a second run of the sample
  library, in which numpy's global generator is in another state; a tokenizer that
  has no end-of-sequence token, and a library that hands it out; and the log of the
  sample run in three parts.
\<close>

definition pipeline_tokenizer :: tokenizer where
  "pipeline_tokenizer = sample_tokenizer\<lparr>pad_token := Some ''EOS'', padding_side := ''right''\<rparr>"

definition hf_other_run :: "(string, nat) hf_lib" where
  "hf_other_run = sample_hf\<lparr>numpy_global_seed := 8\<rparr>"

definition tokenizer_without_eos :: tokenizer where
  "tokenizer_without_eos =
     \<lparr>eos_token = None, pad_token = Some ''PAD'', padding_side = ''right'',
      convert_tokens_to_ids = (\<lambda>t. if t = ''PAD'' then 0 else 100),
      encode_ids = (\<lambda>text limit.
         let ids = map (\<lambda>c. of_char c) text
         in case limit of None \<Rightarrow> ids | Some n \<Rightarrow> take n ids)\<rparr>"

definition hf_without_eos :: "(string, nat) hf_lib" where
  "hf_without_eos =
     sample_hf\<lparr>auto_tokenizer_from_pretrained := (\<lambda>_ _. Inr tokenizer_without_eos)\<rparr>"

definition sample_memory_log :: "event list" where
  "sample_memory_log =
     [Ev Cuda_empty_cache None, Ev Cuda_reset_peak_memory_stats None,
      Ev (Set_float32_matmul_precision ''medium'') None,
      Ev Import_pynvml None, Ev NvmlInit None,
      Ev (NvmlDeviceGetHandleByIndex 0) None, Ev (NvmlDeviceGetMemoryInfo 7) None,
      Ev (Print (Gpu_total_memory 16384)) None, Ev (Print (Gpu_used_memory 4096)) None,
      Ev (Print (Gpu_free_memory 12288)) None, Ev NvmlShutdown None,
      Ev (Environ_set ''PYTORCH_CUDA_ALLOC_CONF''
            ''expandable_segments:True,max_split_size_mb:128'') None]"

definition sample_setup_log :: "event list" where
  "sample_setup_log =
     [Ev BitsAndBytesConfig None,
      Ev (AutoModelForCausalLM_from_pretrained MODEL_ID) None,
      Ev (AutoTokenizer_from_pretrained MODEL_ID) None,
      Ev LoraConfig None, Ev Prepare_model_for_kbit_training None, Ev Get_peft_model None]"

definition sample_data_log :: "event list" where
  "sample_data_log =
     [Ev (Load_dataset ''imdb'' ''train+test'') None,
      Ev (Dataset_shuffle (Some 42)) None, Ev (Dataset_map 4 1000) None,
      Ev (Len_times_0_8 5) None, Ev (Dataset_select 0 4) None,
      Ev (Len_times_0_8 5) None, Ev (Dataset_select 4 5) None,
      Ev (TrainingArguments ''./llama2_finetune'' ''./logs'') None,
      Ev DataCollatorForLanguageModeling None,
      Ev (Trainer ''./llama2_finetune'' ''./logs'') None]"

section \<open>Basic facts about computations\<close>

lemmas comp_defs = ret_def bnd_def call_def print_def try_except_def try_finally_def raised_def

lemmas pipeline_defs = train_with_memory_optimization_def load_model_with_minimal_memory_def
  create_efficient_tokenizer_def create_efficient_dataset_def train_eval_split_def
  create_memory_optimized_training_args_def

lemmas sample_sys_defs = sample_sys_def sys_without_pynvml_def sys_without_driver_def
  sys_query_fails_def

lemmas sample_hf_defs = sample_hf_def hf_out_of_memory_def hf_out_of_memory_disk_full_def
  hf_hub_unreachable_def hf_other_run_def hf_without_eos_def

lemmas sample_log_defs = sample_memory_log_def sample_setup_log_def sample_data_log_def

section \<open>The NVML query of \<^verbatim>\<open>optimize_memory\<close>\<close>

text \<open>
  Claim C7, as far as it holds.  (a) When \<^verbatim>\<open>import pynvml\<close> raises an \<open>ImportError\<close>,
  \<^verbatim>\<open>print_gpu_utilization\<close> catches it and reports the PyTorch figures instead; it
  returns normally when the two PyTorch queries answer.  (b) When NVML initialises and
  the device query raises an \<open>Exception\<close>, the exception is caught and printed, and
  NVML is shut down; the function returns normally when the shutdown does.
  (c) Whenever \<^verbatim>\<open>nvmlInit\<close> succeeded, \<^verbatim>\<open>nvmlShutdown\<close> is called, whatever the device
  query did.  (d) When \<^verbatim>\<open>nvmlInit\<close> itself raises anything but an \<open>ImportError\<close>, no
  handler applies: the function raises that exception and does nothing more, and so
  does \<^verbatim>\<open>optimize_memory\<close> once the three calls it makes before the query have
  returned.
\<close>

theorem C7_nvml_query_handlers:
  "(\<forall>e a b. import_pynvml S = Inl e \<and> isinstance e ImportError \<and>
        cuda_memory_allocated S = Inr a \<and> cuda_memory_reserved S = Inr b \<longrightarrow>
        print_gpu_utilization S s =
          (Inr (),
           s @ [Ev Import_pynvml (Some e), Ev (Print Nvml_not_available) None,
                Ev Cuda_memory_allocated None, Ev (Print (Allocated_gpu_memory a)) None,
                Ev Cuda_memory_reserved None, Ev (Print (Cached_gpu_memory b)) None]))
   \<and> (\<forall>e. import_pynvml S = Inr () \<and> nvmlInit S = Inr () \<and>
        (nvmlDeviceGetHandleByIndex S 0 = Inl e \<or>
         (\<exists>h. nvmlDeviceGetHandleByIndex S 0 = Inr h \<and> nvmlDeviceGetMemoryInfo S h = Inl e)) \<and>
        isinstance e Exception \<and> nvmlShutdown S = Inr () \<longrightarrow>
        fst (print_gpu_utilization S s) = Inr () \<and>
        suffix [Ev (Print (Error_getting_gpu_memory_info e)) None, Ev NvmlShutdown None]
          (snd (print_gpu_utilization S s)))
   \<and> (import_pynvml S = Inr () \<and> nvmlInit S = Inr () \<longrightarrow>
        Ev NvmlShutdown (raised (nvmlShutdown S))
          \<in> set (drop (length s) (snd (print_gpu_utilization S s))))
   \<and> (\<forall>e. import_pynvml S = Inr () \<and> nvmlInit S = Inl e \<and> \<not> isinstance e ImportError \<longrightarrow>
        print_gpu_utilization S s =
          (Inl e, s @ [Ev Import_pynvml None, Ev NvmlInit (Some e)]))
   \<and> (\<forall>e. cuda_empty_cache S = Inr () \<and> cuda_reset_peak_memory_stats S = Inr () \<and>
        set_float32_matmul_precision S ''medium'' = Inr () \<and>
        import_pynvml S = Inr () \<and> nvmlInit S = Inl e \<and> \<not> isinstance e ImportError \<longrightarrow>
        optimize_memory S s =
          (Inl e, s @ [Ev Cuda_empty_cache None, Ev Cuda_reset_peak_memory_stats None,
                       Ev (Set_float32_matmul_precision ''medium'') None,
                       Ev Import_pynvml None, Ev NvmlInit (Some e)]))"
proof (intro conjI allI impI)
  fix e a b
  assume "import_pynvml S = Inl e \<and> isinstance e ImportError \<and>
        cuda_memory_allocated S = Inr a \<and> cuda_memory_reserved S = Inr b"
  then show "print_gpu_utilization S s =
          (Inr (),
           s @ [Ev Import_pynvml (Some e), Ev (Print Nvml_not_available) None,
                Ev Cuda_memory_allocated None, Ev (Print (Allocated_gpu_memory a)) None,
                Ev Cuda_memory_reserved None, Ev (Print (Cached_gpu_memory b)) None])"
    by (simp add: print_gpu_utilization_def comp_defs)
next
  fix e
  assume "import_pynvml S = Inr () \<and> nvmlInit S = Inr () \<and>
        (nvmlDeviceGetHandleByIndex S 0 = Inl e \<or>
         (\<exists>h. nvmlDeviceGetHandleByIndex S 0 = Inr h \<and> nvmlDeviceGetMemoryInfo S h = Inl e)) \<and>
        isinstance e Exception \<and> nvmlShutdown S = Inr ()"
  then show "fst (print_gpu_utilization S s) = Inr ()"
    and "suffix [Ev (Print (Error_getting_gpu_memory_info e)) None, Ev NvmlShutdown None]
          (snd (print_gpu_utilization S s))"
    by (auto simp add: print_gpu_utilization_def comp_defs suffix_to_prefix)
next
  assume "import_pynvml S = Inr () \<and> nvmlInit S = Inr ()"
  then show "Ev NvmlShutdown (raised (nvmlShutdown S))
          \<in> set (drop (length s) (snd (print_gpu_utilization S s)))"
    by (auto simp add: print_gpu_utilization_def comp_defs split: sum.splits)
next
  fix e
  assume "import_pynvml S = Inr () \<and> nvmlInit S = Inl e \<and> \<not> isinstance e ImportError"
  then show "print_gpu_utilization S s =
          (Inl e, s @ [Ev Import_pynvml None, Ev NvmlInit (Some e)])"
    by (simp add: print_gpu_utilization_def comp_defs)
next
  fix e
  assume "cuda_empty_cache S = Inr () \<and> cuda_reset_peak_memory_stats S = Inr () \<and>
        set_float32_matmul_precision S ''medium'' = Inr () \<and>
        import_pynvml S = Inr () \<and> nvmlInit S = Inl e \<and> \<not> isinstance e ImportError"
  then show "optimize_memory S s =
          (Inl e, s @ [Ev Cuda_empty_cache None, Ev Cuda_reset_peak_memory_stats None,
                       Ev (Set_float32_matmul_precision ''medium'') None,
                       Ev Import_pynvml None, Ev NvmlInit (Some e)])"
    by (simp add: optimize_memory_def print_gpu_utilization_def comp_defs)
qed

text \<open>The four cases of C7 on the sample machines.\<close>

theorem C7_nvml_query_handlers_witness:
  "print_gpu_utilization sys_without_pynvml [] =
     (Inr (),
      [Ev Import_pynvml (Some (Exn ModuleNotFoundError ''No module named pynvml'')),
       Ev (Print Nvml_not_available) None,
       Ev Cuda_memory_allocated None, Ev (Print (Allocated_gpu_memory 1024)) None,
       Ev Cuda_memory_reserved None, Ev (Print (Cached_gpu_memory 2048)) None])
   \<and> fst (print_gpu_utilization sys_query_fails []) = Inr ()
   \<and> suffix [Ev (Print (Error_getting_gpu_memory_info (Exn NVMLError ''Unknown Error''))) None,
             Ev NvmlShutdown None]
        (snd (print_gpu_utilization sys_query_fails []))
   \<and> Ev NvmlShutdown None \<in> set (snd (print_gpu_utilization sample_sys []))
   \<and> snd (print_gpu_utilization sys_without_driver []) =
       [Ev Import_pynvml None, Ev NvmlInit (Some (Exn NVMLError ''Driver Not Loaded''))]
   \<and> optimize_memory sys_without_driver [] =
       (Inl (Exn NVMLError ''Driver Not Loaded''),
        [Ev Cuda_empty_cache None, Ev Cuda_reset_peak_memory_stats None,
         Ev (Set_float32_matmul_precision ''medium'') None,
         Ev Import_pynvml None, Ev NvmlInit (Some (Exn NVMLError ''Driver Not Loaded''))])"
  using C7_nvml_query_handlers [of sys_without_pynvml "[]"]
        C7_nvml_query_handlers [of sys_query_fails "[]"]
        C7_nvml_query_handlers [of sample_sys "[]"]
        C7_nvml_query_handlers [of sys_without_driver "[]"]
  by (simp add: sample_sys_defs isinstance_def raised_def)

text \<open>
  Against C7 as stated (``never propagates an error''): with the module installed and
  no driver loaded, \<^verbatim>\<open>nvmlInit\<close> raises an \<open>NVMLError\<close>, which is not an \<open>ImportError\<close>;
  it leaves \<^verbatim>\<open>print_gpu_utilization\<close> and \<^verbatim>\<open>optimize_memory\<close> uncaught.
\<close>

theorem C7_nvml_init_error_propagates:
  "print_gpu_utilization sys_without_driver [] =
     (Inl (Exn NVMLError ''Driver Not Loaded''),
      [Ev Import_pynvml None, Ev NvmlInit (Some (Exn NVMLError ''Driver Not Loaded''))])
   \<and> fst (optimize_memory sys_without_driver []) = Inl (Exn NVMLError ''Driver Not Loaded'')"
  by (simp add: optimize_memory_def print_gpu_utilization_def comp_defs sample_sys_defs isinstance_def)

section \<open>The plotted loss series\<close>

lemma training_losses_from_eq:
  "training_losses_from acc log_history =
     Inr (acc @ List.map_filter (\<lambda>entry. entry ''loss'') log_history)"
proof (induction log_history arbitrary: acc)
  case Nil
  show ?case by (simp add: List.map_filter_simps)
next
  case (Cons entry rest)
  show ?case
  proof (cases "entry ''loss''")
    case None
    then show ?thesis using Cons.IH [of acc]
      by (simp add: contains_def List.map_filter_simps)
  next
    case (Some v)
    then show ?thesis using Cons.IH [of "acc @ [v]"]
      by (simp add: contains_def getitem_def List.map_filter_simps)
  qed
qed

text \<open>
  Claim C8.  The comprehension never raises, and the series it builds is, in the order
  of the log, the \<^verbatim>\<open>'loss'\<close> value of each entry that has that key and nothing else.
\<close>

theorem C8_training_losses:
  "training_losses log_history =
     Inr (map (\<lambda>entry. the (entry ''loss''))
            (filter (\<lambda>entry. contains entry ''loss'') log_history))"
  by (simp add: training_losses_def training_losses_from_eq List.map_filter_def contains_def comp_def)

section \<open>The tokenizer\<close>

text \<open>
  Claim C10, as far as it holds.  Whatever the model identifier, when the library hands
  out a tokenizer, \<^verbatim>\<open>create_efficient_tokenizer\<close> returns that tokenizer with two
  attributes changed: the pad token is the end-of-sequence token of the library's
  tokenizer, which stays what it was, and the padding side is right.  When the
  library's tokenizer has an end-of-sequence token, padding a sequence to a fixed
  length appends the id of that token, and nothing else, on the right.  When it has
  none, the tokenizer returned has no pad token and every tokenization with padding
  raises.  When the library raises, so does the function.
\<close>

theorem C10_pad_token_is_eos_on_the_right:
  "create_efficient_tokenizer H model_id s =
     (case auto_tokenizer_from_pretrained H model_id tokenizer_kwargs of
        Inl e \<Rightarrow> (Inl e, s @ [Ev (AutoTokenizer_from_pretrained model_id) (Some e)])
      | Inr tok0 \<Rightarrow>
          (Inr (tok0\<lparr>pad_token := eos_token tok0, padding_side := ''right''\<rparr>),
           s @ [Ev (AutoTokenizer_from_pretrained model_id) None]))
   \<and> (\<forall>tok s'. create_efficient_tokenizer H model_id s = (Inr tok, s') \<longrightarrow>
        (\<exists>tok0. auto_tokenizer_from_pretrained H model_id tokenizer_kwargs = Inr tok0 \<and>
           tok = tok0\<lparr>pad_token := eos_token tok0, padding_side := ''right''\<rparr> \<and>
           eos_token tok = eos_token tok0) \<and>
        pad_token tok = eos_token tok \<and> padding_side tok = ''right'' \<and>
        (\<forall>eos max_length ids. eos_token tok = Some eos \<longrightarrow>
           pad_encoding tok max_length ids =
             Inr \<lparr>input_ids =
                    ids @ replicate (max_length - length ids) (convert_tokens_to_ids tok eos),
                  attention_mask =
                    replicate (length ids) 1 @ replicate (max_length - length ids) 0\<rparr>) \<and>
        (eos_token tok = None \<longrightarrow>
           (\<forall>texts max_length.
              tokenizer_call tok texts True ''max_length'' max_length ''pt'' =
                Inl (Exn ValueError ''Asking to pad but the tokenizer does not have a padding token''))))"
proof (intro conjI allI impI)
  show "create_efficient_tokenizer H model_id s =
     (case auto_tokenizer_from_pretrained H model_id tokenizer_kwargs of
        Inl e \<Rightarrow> (Inl e, s @ [Ev (AutoTokenizer_from_pretrained model_id) (Some e)])
      | Inr tok0 \<Rightarrow>
          (Inr (tok0\<lparr>pad_token := eos_token tok0, padding_side := ''right''\<rparr>),
           s @ [Ev (AutoTokenizer_from_pretrained model_id) None]))"
    by (simp add: create_efficient_tokenizer_def comp_defs Let_def split: sum.splits)
next
  fix tok s'
  assume run: "create_efficient_tokenizer H model_id s = (Inr tok, s')"
  then obtain tok0 where lib: "auto_tokenizer_from_pretrained H model_id tokenizer_kwargs = Inr tok0"
    and tok: "tok = tok0\<lparr>pad_token := eos_token tok0, padding_side := ''right''\<rparr>"
    by (auto simp add: create_efficient_tokenizer_def comp_defs Let_def split: sum.splits)
  from lib tok
  show "\<exists>tok0. auto_tokenizer_from_pretrained H model_id tokenizer_kwargs = Inr tok0 \<and>
           tok = tok0\<lparr>pad_token := eos_token tok0, padding_side := ''right''\<rparr> \<and>
           eos_token tok = eos_token tok0"
    by simp
  from tok show "pad_token tok = eos_token tok" and "padding_side tok = ''right''"
    by simp_all
  {
    fix eos max_length ids
    assume "eos_token tok = Some eos"
    with tok show "pad_encoding tok max_length ids =
             Inr \<lparr>input_ids =
                    ids @ replicate (max_length - length ids) (convert_tokens_to_ids tok eos),
                  attention_mask =
                    replicate (length ids) 1 @ replicate (max_length - length ids) 0\<rparr>"
      by (simp add: pad_encoding_def Let_def)
  }
  {
    fix texts max_length
    assume "eos_token tok = None"
    with tok show "tokenizer_call tok texts True ''max_length'' max_length ''pt'' =
                Inl (Exn ValueError ''Asking to pad but the tokenizer does not have a padding token'')"
      by (simp add: tokenizer_call_def)
  }
qed

lemma sample_tokenizer_run:
  "create_efficient_tokenizer sample_hf MODEL_ID [] =
     (Inr (sample_tokenizer\<lparr>pad_token := Some ''EOS'', padding_side := ''right''\<rparr>),
      [Ev (AutoTokenizer_from_pretrained MODEL_ID) None])"
  by (simp add: create_efficient_tokenizer_def comp_defs sample_hf_def sample_tokenizer_def)

text \<open>
  C10 on the sample tokenizer, which the library hands out padding on the left, and
  on the tokenizer without an end-of-sequence token.
\<close>

theorem C10_pad_token_is_eos_on_the_right_witness:
  "create_efficient_tokenizer sample_hf MODEL_ID [] =
     (Inr (sample_tokenizer\<lparr>pad_token := Some ''EOS'', padding_side := ''right''\<rparr>),
      [Ev (AutoTokenizer_from_pretrained MODEL_ID) None])
   \<and> eos_token (sample_tokenizer\<lparr>pad_token := Some ''EOS'', padding_side := ''right''\<rparr>) = Some ''EOS''
   \<and> pad_encoding (sample_tokenizer\<lparr>pad_token := Some ''EOS'', padding_side := ''right''\<rparr>) 6
       [1, 97, 2] = Inr \<lparr>input_ids = [1, 97, 2, 2, 2, 2], attention_mask = [1, 1, 1, 0, 0, 0]\<rparr>
   \<and> tokenizer_call (tokenizer_without_eos\<lparr>pad_token := None\<rparr>) [''good'', ''bad''] True
       ''max_length'' 512 ''pt'' =
     Inl (Exn ValueError ''Asking to pad but the tokenizer does not have a padding token'')"
proof -
  have no_eos: "create_efficient_tokenizer hf_without_eos MODEL_ID [] =
      (Inr (tokenizer_without_eos\<lparr>pad_token := None\<rparr>),
       [Ev (AutoTokenizer_from_pretrained MODEL_ID) None])"
    by (simp add: create_efficient_tokenizer_def comp_defs sample_hf_defs sample_hf_def
        tokenizer_without_eos_def)
  have none: "eos_token (tokenizer_without_eos\<lparr>pad_token := None\<rparr>) = None"
    by (simp add: tokenizer_without_eos_def)
  from C10_pad_token_is_eos_on_the_right [of hf_without_eos MODEL_ID "[]",
         THEN conjunct2, rule_format, OF no_eos]
  have "tokenizer_call (tokenizer_without_eos\<lparr>pad_token := None\<rparr>) [''good'', ''bad''] True
       ''max_length'' 512 ''pt'' =
     Inl (Exn ValueError ''Asking to pad but the tokenizer does not have a padding token'')"
    using none by blast
  with C10_pad_token_is_eos_on_the_right [of sample_hf MODEL_ID "[]"]
  show ?thesis
    by (simp add: sample_tokenizer_run sample_tokenizer_def numeral_eq_Suc)
qed

text \<open>
  Against C10 as stated (``for every model identifier \<dots> padding always appends
  end-of-sequence tokens''): a model whose tokenizer has a pad token of its own and no
  end-of-sequence token.  The function overwrites the pad token with the missing
  token; the pad token equals the end-of-sequence token, both are absent, and the
  tokenization of the notebook raises instead of padding.
\<close>

theorem C10_no_eos_token_no_padding:
  "fst (create_efficient_tokenizer hf_without_eos ''bert-base-uncased'' []) =
     Inr (tokenizer_without_eos\<lparr>pad_token := None\<rparr>)
   \<and> pad_token tokenizer_without_eos = Some ''PAD''
   \<and> tokenize_function (tokenizer_without_eos\<lparr>pad_token := None\<rparr>) 512
       [\<lparr>text_col = ''good'', label = 1\<rparr>] =
     Inl (Exn ValueError ''Asking to pad but the tokenizer does not have a padding token'')"
  by (simp add: create_efficient_tokenizer_def comp_defs sample_hf_defs sample_hf_def
      tokenizer_without_eos_def tokenize_function_def tokenizer_call_def)

section \<open>Tokenized datasets\<close>

lemma map_exn_Inr:
  "map_exn f xs = Inr ys \<Longrightarrow> list_all2 (\<lambda>x y. f x = Inr y) xs ys"
  by (induction xs arbitrary: ys) (auto split: sum.splits)

lemma map_exn_total:
  "\<forall>x \<in> set xs. f x = Inr (g x) \<Longrightarrow> map_exn f xs = Inr (map g xs)"
  by (induction xs) auto

lemma concat_batches: "concat (batches b xs) = xs"
  by (induction b xs rule: batches.induct) (subst batches.simps, simp)

lemma shard_eq:
  "shard p i ds =
     take (shard_start (length ds) p (Suc i) - shard_start (length ds) p i)
       (drop (shard_start (length ds) p i) ds)"
  by (simp add: shard_def shard_start_def Let_def min_def)

lemma shard_start_mono: "shard_start n p i \<le> shard_start n p (Suc i)"
  by (simp add: shard_start_def min_def)

lemma concat_shards_upto:
  "concat (map (\<lambda>i. shard p i ds) [0..<j]) = take (shard_start (length ds) p j) ds"
proof (induction j)
  case 0
  show ?case by (simp add: shard_start_def)
next
  case (Suc j)
  have "take (shard_start (length ds) p (Suc j)) ds =
        take (shard_start (length ds) p j + (shard_start (length ds) p (Suc j) - shard_start (length ds) p j)) ds"
    using shard_start_mono [of "length ds" p j] by simp
  also have "\<dots> = take (shard_start (length ds) p j) ds @ shard p j ds"
    by (simp only: take_add shard_eq)
  finally show ?case using Suc.IH by simp
qed

lemma concat_shards: "0 < p \<Longrightarrow> concat (map (\<lambda>i. shard p i ds) [0..<p]) = ds"
proof -
  assume "0 < p"
  then have "length ds mod p < p" by simp
  then have "shard_start (length ds) p p = length ds"
    by (simp add: shard_start_def min_def)
  then show ?thesis by (simp add: concat_shards_upto)
qed

lemma concat_concat_map:
  "concat (concat (map h xs)) = concat (map (\<lambda>x. concat (h x)) xs)"
  by (induction xs) simp_all

lemma concat_work:
  "0 < p \<Longrightarrow> concat (concat (map (\<lambda>rank. batches b (shard (min p (length ds)) rank ds))
                    [0..<min p (length ds)])) = ds"
proof (cases "ds = []")
  case True
  then show ?thesis by simp
next
  case False
  assume "0 < p"
  with False have pos: "0 < min p (length ds)" by simp
  have "concat (concat (map (\<lambda>rank. batches b (shard (min p (length ds)) rank ds))
                    [0..<min p (length ds)]))
        = concat (map (\<lambda>rank. concat (batches b (shard (min p (length ds)) rank ds)))
                    [0..<min p (length ds)])"
    by (rule concat_concat_map)
  also have "\<dots> = ds" using concat_shards [OF pos, of ds] by (simp add: concat_batches)
  finally show ?thesis .
qed

lemma map_batched_Inr:
  assumes "map_batched f p b ds = Inr tds" and "0 < p"
  shows "\<exists>work outs. concat work = ds \<and> list_all2 (\<lambda>batch out. f batch = Inr out) work outs \<and>
                     tds = concat outs"
proof -
  define work where
    "work = concat (map (\<lambda>rank. batches b (shard (min p (length ds)) rank ds)) [0..<min p (length ds)])"
  from assms(1) obtain outs where o: "map_exn f work = Inr outs" and t: "tds = concat outs"
    by (auto simp: map_batched_def Let_def work_def split: sum.splits)
  from concat_work [OF assms(2)] have "concat work = ds" by (simp add: work_def)
  with map_exn_Inr [OF o] t show ?thesis by blast
qed

lemma map_batched_total:
  assumes "\<And>batch. f batch = Inr (map g batch)" and "0 < p"
  shows "map_batched f p b ds = Inr (map g ds)"
proof -
  define work where
    "work = concat (map (\<lambda>rank. batches b (shard (min p (length ds)) rank ds)) [0..<min p (length ds)])"
  have "map_exn f work = Inr (map (map g) work)"
    by (rule map_exn_total) (simp add: assms(1))
  moreover have "concat (map (map g) work) = map g (concat work)"
    by (simp add: map_concat)
  moreover from concat_work [OF assms(2)] have "concat work = ds" by (simp add: work_def)
  ultimately show ?thesis by (simp add: map_batched_def Let_def work_def [symmetric])
qed

lemma pad_encoding_length:
  assumes "pad_encoding tok n ids = Inr enc" and "length ids \<le> n"
  shows "length (input_ids enc) = n \<and> length (attention_mask enc) = n"
  using assms by (auto simp: pad_encoding_def Let_def split: if_splits)

lemma tokenizer_call_rows:
  assumes "truncates_to tok n" and "tokenizer_call tok texts True ''max_length'' n ''pt'' = Inr encs"
  shows "length encs = length texts \<and>
         (\<forall>enc \<in> set encs. length (input_ids enc) = n \<and> length (attention_mask enc) = n)"
proof -
  from assms(2) have
    "map_exn (\<lambda>t. pad_encoding tok n (encode_ids tok t (Some n))) texts = Inr encs"
    by (auto simp: tokenizer_call_def split: if_splits sum.splits)
  from map_exn_Inr [OF this]
  have l2: "list_all2 (\<lambda>t enc. pad_encoding tok n (encode_ids tok t (Some n)) = Inr enc) texts encs" .
  then have "length encs = length texts" by (simp add: list_all2_lengthD)
  moreover have "length (input_ids enc) = n \<and> length (attention_mask enc) = n"
    if "enc \<in> set encs" for enc
  proof -
    from that l2 obtain t where "pad_encoding tok n (encode_ids tok t (Some n)) = Inr enc"
      by (auto simp: list_all2_conv_all_nth in_set_conv_nth)
    moreover from assms(1) have "length (encode_ids tok t (Some n)) \<le> n"
      by (simp add: truncates_to_def)
    ultimately show ?thesis by (rule pad_encoding_length)
  qed
  ultimately show ?thesis by blast
qed

lemma tokenized_rows:
  fixes ds :: "'a row_scheme list"
  assumes tr: "truncates_to tok n"
    and mb: "map_batched (tokenize_function tok n) p b ds = Inr tds" and p: "0 < p"
  shows "length tds = length ds \<and>
         (\<forall>enc \<in> set tds. length (input_ids enc) = n \<and> length (attention_mask enc) = n)"
proof -
  from map_batched_Inr [OF mb p] obtain work outs where w: "concat work = ds"
    and l2: "list_all2 (\<lambda>batch out. tokenize_function tok n batch = Inr out) work outs"
    and t: "tds = concat outs" by blast
  have each: "length out = length batch \<and>
        (\<forall>enc \<in> set out. length (input_ids enc) = n \<and> length (attention_mask enc) = n)"
    if "tokenize_function tok n batch = Inr out" for batch :: "'a row_scheme list" and out
    using tokenizer_call_rows [OF tr, of "map text_col batch" out] that
    by (simp add: tokenize_function_def)
  from l2 each have "list_all2 (\<lambda>batch out. length out = length batch) work outs"
    by (auto elim!: list_all2_mono)
  then have "map length outs = map length work"
    by (induction rule: list_all2_induct) simp_all
  then have "length (concat outs) = length (concat work)"
    by (simp add: length_concat)
  moreover have "length (input_ids enc) = n \<and> length (attention_mask enc) = n"
    if "enc \<in> set (concat outs)" for enc
  proof -
    from that obtain out where "out \<in> set outs" and e: "enc \<in> set out" by auto
    with l2 obtain batch :: "'a row_scheme list" where "tokenize_function tok n batch = Inr out"
      by (auto simp: list_all2_conv_all_nth in_set_conv_nth)
    from each [OF this] e show ?thesis by blast
  qed
  ultimately show ?thesis using w t by blast
qed

lemma same_length_fixed:
  "\<forall>enc \<in> set encs. length (input_ids enc) = n \<Longrightarrow> same_length encs"
  by (cases encs) (simp_all add: same_length_def list_all_iff)

lemma tokenize_function_total:
  assumes tr: "truncates_to tok n" and pt: "pad_token tok = Some p" and ps: "padding_side tok = ''right''"
  shows "tokenize_function tok n batch = Inr (map (\<lambda>row. padded_row tok n (text_col row)) batch)"
proof -
  have row: "pad_encoding tok n (encode_ids tok t (Some n)) = Inr (padded_row tok n t)" for t
    using pt ps by (simp add: pad_encoding_def padded_row_def Let_def)
  have m: "map_exn (\<lambda>t. pad_encoding tok n (encode_ids tok t (Some n))) (map text_col batch)
        = Inr (map (padded_row tok n) (map text_col batch))"
    by (rule map_exn_total) (simp add: row)
  have "length (input_ids (padded_row tok n t)) = n" for t
    using tr by (simp add: padded_row_def Let_def truncates_to_def)
  then have "same_length (map (padded_row tok n) (map text_col batch))"
    by (intro same_length_fixed) auto
  with m pt show ?thesis
    by (simp add: tokenize_function_def tokenizer_call_def comp_def)
qed

lemma create_efficient_dataset_total:
  assumes tr: "truncates_to tok (case max_length_arg of None \<Rightarrow> 512 | Some n \<Rightarrow> n)"
    and pt: "pad_token tok = Some p" and ps: "padding_side tok = ''right''"
    and perm: "\<forall>i \<in> set (rng_permutation H 42 (length dataset)). i < length dataset"
  shows "create_efficient_dataset H dataset tok max_length_arg s =
           (Inr (map (\<lambda>row. padded_row tok (case max_length_arg of None \<Rightarrow> 512 | Some n \<Rightarrow> n) (text_col row))
                   (map (\<lambda>i. dataset ! i) (rng_permutation H 42 (length dataset)))),
            s @ [Ev (Dataset_shuffle (Some 42)) None, Ev (Dataset_map 4 1000) None])"
proof -
  define n where "n = (case max_length_arg of None \<Rightarrow> 512 | Some n \<Rightarrow> n)"
  define shuffled where
    "shuffled = map (\<lambda>i. dataset ! i) (rng_permutation H 42 (length dataset))"
  from tr have tr': "truncates_to tok n" by (simp add: n_def)
  have sh: "shuffle H (Some 42) dataset = Inr shuffled"
    using perm by (simp add: shuffle_def select_def shuffled_def)
  have mb: "map_batched (tokenize_function tok n) 4 1000 shuffled =
          Inr (map (\<lambda>row. padded_row tok n (text_col row)) shuffled)"
    by (rule map_batched_total) (simp_all add: tokenize_function_total [OF tr' pt ps])
  show ?thesis
    unfolding n_def [symmetric] shuffled_def [symmetric]
    by (simp add: create_efficient_dataset_def comp_defs Let_def n_def [symmetric] sh mb)
qed

lemma truncates_sample:
  "2 \<le> n \<Longrightarrow> truncates_to (sample_tokenizer\<lparr>pad_token := p, padding_side := sd\<rparr>) n"
  by (auto simp add: truncates_to_def sample_tokenizer_def Let_def min_def)

lemma pipeline_tokenizer_truncates: "truncates_to pipeline_tokenizer 512"
  by (simp add: pipeline_tokenizer_def truncates_sample)

lemma sample_permutation: "rng_permutation sample_hf 42 n = rev [0..<n]"
  by (simp add: sample_hf_def)

lemma sample_rows_length: "length sample_rows = 5"
  by (simp add: sample_rows_def)

lemma sample_tokenizer_step:
  assumes "auto_tokenizer_from_pretrained H = (\<lambda>_ _. Inr sample_tokenizer)"
  shows "create_efficient_tokenizer H model_id s =
           (Inr pipeline_tokenizer, s @ [Ev (AutoTokenizer_from_pretrained model_id) None])"
  by (simp add: create_efficient_tokenizer_def comp_defs assms pipeline_tokenizer_def
      sample_tokenizer_def)

lemma sample_dataset_step:
  assumes "rng_permutation H 42 = (\<lambda>n. rev [0..<n])"
  shows "create_efficient_dataset H sample_rows pipeline_tokenizer None s =
     (Inr (map (\<lambda>row. padded_row pipeline_tokenizer 512 (text_col row)) (rev sample_rows)),
      s @ [Ev (Dataset_shuffle (Some 42)) None, Ev (Dataset_map 4 1000) None])"
proof -
  have r: "map (\<lambda>i. sample_rows ! i) (rev [0..<length sample_rows]) = rev sample_rows"
    by (simp add: rev_map [symmetric] map_nth)
  have "truncates_to pipeline_tokenizer (case None of None \<Rightarrow> 512 | Some n \<Rightarrow> n)"
    "pad_token pipeline_tokenizer = Some ''EOS''"
    "padding_side pipeline_tokenizer = ''right''"
    by (simp_all add: pipeline_tokenizer_def truncates_sample)
  from create_efficient_dataset_total [OF this, of H sample_rows s]
  show ?thesis by (simp add: assms r)
qed

text \<open>
  Claim C4, as far as it holds.  Take a \<open>max_length\<close> at which the tokenizer honours
  truncation: asked to truncate to \<open>max_length\<close>, it returns at most that many ids.
  Then every example of the dataset that \<^verbatim>\<open>create_efficient_dataset\<close> returns has
  exactly \<open>max_length\<close> token ids and as many mask entries, 512 when the argument is
  left out, so all examples have the same length; there is one example for each index
  that the shuffle drew.  And the function does return, when the tokenizer has a pad
  token and pads on the right and the shuffle draws indices of the dataset: each
  example is the truncated ids of its text followed by pad ids up to \<open>max_length\<close>.
  A tokenizer that adds a begin and an end marker, as the one of the notebook does,
  honours truncation from \<open>max_length = 2\<close> on.
\<close>

theorem C4_fixed_length:
  assumes tr: "truncates_to tok (case max_length_arg of None \<Rightarrow> 512 | Some n \<Rightarrow> n)"
  shows "(\<forall>tds s'. create_efficient_dataset H dataset tok max_length_arg s = (Inr tds, s') \<longrightarrow>
            length tds = length (rng_permutation H 42 (length dataset)) \<and>
            (\<forall>enc \<in> set tds.
               length (input_ids enc) = (case max_length_arg of None \<Rightarrow> 512 | Some n \<Rightarrow> n) \<and>
               length (attention_mask enc) = (case max_length_arg of None \<Rightarrow> 512 | Some n \<Rightarrow> n)) \<and>
            same_length tds)
         \<and> (\<forall>p. pad_token tok = Some p \<and> padding_side tok = ''right'' \<and>
              (\<forall>i \<in> set (rng_permutation H 42 (length dataset)). i < length dataset) \<longrightarrow>
              create_efficient_dataset H dataset tok max_length_arg s =
                (Inr (map (\<lambda>row. padded_row tok (case max_length_arg of None \<Rightarrow> 512 | Some n \<Rightarrow> n)
                                   (text_col row))
                        (map (\<lambda>i. dataset ! i) (rng_permutation H 42 (length dataset)))),
                 s @ [Ev (Dataset_shuffle (Some 42)) None, Ev (Dataset_map 4 1000) None]))"
proof (intro conjI allI impI)
  fix tds s'
  assume run: "create_efficient_dataset H dataset tok max_length_arg s = (Inr tds, s')"
  define n where "n = (case max_length_arg of None \<Rightarrow> 512 | Some n \<Rightarrow> n)"
  from tr have tr': "truncates_to tok n" by (simp add: n_def)
  from run obtain shuffled where sh: "shuffle H (Some 42) dataset = Inr shuffled"
    and mb: "map_batched (tokenize_function tok n) 4 1000 shuffled = Inr tds"
    by (auto simp: create_efficient_dataset_def comp_defs Let_def n_def split: sum.splits)
  from sh have len: "length shuffled = length (rng_permutation H 42 (length dataset))"
    by (auto simp: shuffle_def select_def split: if_splits)
  from tokenized_rows [OF tr' mb]
  have rows: "length tds = length shuffled"
    "\<forall>enc \<in> set tds. length (input_ids enc) = n \<and> length (attention_mask enc) = n"
    by simp_all
  from rows(1) len show "length tds = length (rng_permutation H 42 (length dataset))" by simp
  from rows(2) show "\<forall>enc \<in> set tds.
               length (input_ids enc) = (case max_length_arg of None \<Rightarrow> 512 | Some n \<Rightarrow> n) \<and>
               length (attention_mask enc) = (case max_length_arg of None \<Rightarrow> 512 | Some n \<Rightarrow> n)"
    by (simp add: n_def)
  from rows(2) show "same_length tds" by (intro same_length_fixed [where n = n]) simp
next
  fix p
  assume "pad_token tok = Some p \<and> padding_side tok = ''right'' \<and>
              (\<forall>i \<in> set (rng_permutation H 42 (length dataset)). i < length dataset)"
  then have "pad_token tok = Some p" "padding_side tok = ''right''"
    "\<forall>i \<in> set (rng_permutation H 42 (length dataset)). i < length dataset"
    by simp_all
  from create_efficient_dataset_total [OF tr this]
  show "create_efficient_dataset H dataset tok max_length_arg s =
                (Inr (map (\<lambda>row. padded_row tok (case max_length_arg of None \<Rightarrow> 512 | Some n \<Rightarrow> n)
                                   (text_col row))
                        (map (\<lambda>i. dataset ! i) (rng_permutation H 42 (length dataset)))),
                 s @ [Ev (Dataset_shuffle (Some 42)) None, Ev (Dataset_map 4 1000) None])" .
qed

text \<open>
  C4 on the five sample rows, shuffled and tokenized with the default length by the
  sample tokenizer, which keeps its two markers.
\<close>

theorem C4_fixed_length_witness:
  "create_efficient_dataset sample_hf sample_rows pipeline_tokenizer None [] =
     (Inr (map (\<lambda>row. padded_row pipeline_tokenizer 512 (text_col row)) (rev sample_rows)),
      [Ev (Dataset_shuffle (Some 42)) None, Ev (Dataset_map 4 1000) None])
   \<and> length (map (\<lambda>row. padded_row pipeline_tokenizer 512 (text_col row)) (rev sample_rows)) = 5
   \<and> list_all (\<lambda>enc. length (input_ids enc) = 512 \<and> length (attention_mask enc) = 512)
       (map (\<lambda>row. padded_row pipeline_tokenizer 512 (text_col row)) (rev sample_rows))
   \<and> same_length (map (\<lambda>row. padded_row pipeline_tokenizer 512 (text_col row)) (rev sample_rows))"
proof -
  have tr: "truncates_to pipeline_tokenizer (case None of None \<Rightarrow> 512 | Some n \<Rightarrow> n)"
    by (simp add: pipeline_tokenizer_truncates)
  have tok: "pad_token pipeline_tokenizer = Some ''EOS''" "padding_side pipeline_tokenizer = ''right''"
    by (simp_all add: pipeline_tokenizer_def)
  have rows: "map (\<lambda>i. sample_rows ! i) (rev [0..<length sample_rows]) = rev sample_rows"
    by (simp add: rev_map [symmetric] map_nth)
  have perm: "\<forall>i \<in> set (rng_permutation sample_hf 42 (length sample_rows)). i < length sample_rows"
    by (simp add: sample_permutation)
  note c4 = C4_fixed_length [OF tr, of sample_hf sample_rows "[]"]
  from c4 [THEN conjunct2, rule_format, OF conjI [OF tok(1) conjI [OF tok(2) perm]]]
  have run: "create_efficient_dataset sample_hf sample_rows pipeline_tokenizer None [] =
     (Inr (map (\<lambda>row. padded_row pipeline_tokenizer 512 (text_col row)) (rev sample_rows)),
      [Ev (Dataset_shuffle (Some 42)) None, Ev (Dataset_map 4 1000) None])"
    by (simp only: sample_permutation rows option.case append_Nil)
  from c4 [THEN conjunct1, rule_format, OF run] run
  show ?thesis
    by (simp add: sample_permutation sample_rows_length list_all_iff)
qed

text \<open>
  Against C4 as stated (every \<open>max_length\<close>): the same tokenizer asked for one id.
  The two markers alone are two ids, the tokenizer returns the sequence as it is,
  padding has nothing to add, and the example has six ids instead of one.
\<close>

theorem C4_max_length_one_is_exceeded:
  "fst (create_efficient_dataset sample_hf [\<lparr>text_col = ''good'', label = 1\<rparr>]
          pipeline_tokenizer (Some 1) []) =
     Inr [\<lparr>input_ids = [1, 103, 111, 111, 100, 2], attention_mask = [1, 1, 1, 1, 1, 1]\<rparr>]"
  by (simp add: create_efficient_dataset_def comp_defs Let_def shuffle_def select_def
      sample_hf_def map_batched_def shard_def batches.simps tokenize_function_def
      tokenizer_call_def pad_encoding_def same_length_def pipeline_tokenizer_def
      sample_tokenizer_def)

section \<open>The train/eval split\<close>

subsection \<open>\<^verbatim>\<open>int(n * 0.8)\<close> is \<open>\<lfloor>4n/5\<rfloor>\<close> up to \<open>2 ^ 49\<close>\<close>

lemma bit_length_bounds:
  "n \<noteq> 0 \<Longrightarrow> 2 ^ (bit_length n - 1) \<le> n \<and> n < 2 ^ bit_length n"
proof (induction n rule: bit_length.induct)
  case (1 n)
  show ?case
  proof (cases "n div 2 = 0")
    case True
    with "1.prems" have "n = 1" by presburger
    then show ?thesis by (simp add: bit_length.simps)
  next
    case False
    with "1.IH" "1.prems"
    have lo: "2 ^ (bit_length (n div 2) - 1) \<le> n div 2"
      and hi: "n div 2 < 2 ^ bit_length (n div 2)" by simp_all
    from False have pos: "bit_length (n div 2) \<noteq> 0"
      by (simp add: bit_length.simps)
    have bl: "bit_length n = Suc (bit_length (n div 2))"
      using "1.prems" by (simp add: bit_length.simps)
    have "(2::nat) ^ bit_length (n div 2) = 2 * 2 ^ (bit_length (n div 2) - 1)"
      using pos by (cases "bit_length (n div 2)") simp_all
    with lo have "2 ^ bit_length (n div 2) \<le> 2 * (n div 2)" by simp
    also have "\<dots> \<le> n" by simp
    finally have a: "2 ^ (bit_length n - 1) \<le> n" by (simp add: bl)
    from hi have "n < 2 * 2 ^ bit_length (n div 2)" by linarith
    with a show ?thesis by (simp add: bl)
  qed
qed

lemma bit_length_le: "n < 2 ^ k \<Longrightarrow> bit_length n \<le> k"
proof (cases "n = 0")
  case True
  then show ?thesis by (simp add: bit_length.simps)
next
  case False
  assume "n < 2 ^ k"
  with bit_length_bounds [OF False] have "(2::nat) ^ (bit_length n - 1) < 2 ^ k" by linarith
  then have "bit_length n - 1 < k" by simp
  then show ?thesis by linarith
qed

lemma round53_small: "n < 2 ^ 53 \<Longrightarrow> round53 n = (n, 0)"
  using bit_length_le [of n 53] by (simp add: round53_def)

lemma float_of_len_small: "n < 2 ^ 53 \<Longrightarrow> float_of_len n = Inr n"
proof -
  assume a: "n < 2 ^ 53"
  have "(2::nat) ^ 53 \<le> 2 ^ 1024" by (rule power_increasing) simp_all
  with a have "\<not> 2 ^ 1024 \<le> n" by linarith
  with a show ?thesis by (simp add: float_of_len_def round53_small del: power_numeral)
qed

lemma round53_range:
  assumes "round53 p = (q, s)"
  shows "p div 2 ^ s * 2 ^ s \<le> q * 2 ^ s" and "q * 2 ^ s \<le> p + 2 ^ s"
    and "s = bit_length p - 53"
proof -
  from assms have s: "s = bit_length p - 53" and q: "q = p div 2 ^ s \<or> q = p div 2 ^ s + 1"
    by (auto simp: round53_def Let_def split: if_splits)
  show "s = bit_length p - 53" by (rule s)
  from q show "p div 2 ^ s * 2 ^ s \<le> q * 2 ^ s" by auto
  have le: "p div 2 ^ s * 2 ^ s \<le> p" by simp
  from q show "q * 2 ^ s \<le> p + 2 ^ s"
  proof
    assume "q = p div 2 ^ s"
    then show ?thesis by (simp add: trans_le_add1)
  next
    assume "q = p div 2 ^ s + 1"
    then have "q * 2 ^ s = p div 2 ^ s * 2 ^ s + 2 ^ s" by (simp add: algebra_simps)
    with le show ?thesis by linarith
  qed
qed

lemma int_len_times_0_8_exact:
  assumes n: "n \<le> 2 ^ 49"
  shows "int_len_times_0_8 n = Inr (4 * n div 5)"
proof -
  define M :: nat where "M = 3602879701896397"
  define T :: nat where "T = 2 ^ 52"
  define p where "p = n * M"
  define k where "k = 4 * n div 5"
  obtain q s where r: "round53 p = (q, s)" by (cases "round53 p")
  note rr = round53_range [OF r]
  have five: "5 * M = 4 * T + 1" by (simp add: M_def T_def)
  have M52: "M \<le> T" by (simp add: M_def T_def)
  have n53: "n < 2 ^ 53"
  proof -
    have "(2::nat) ^ 49 < 2 ^ 53" by simp
    with n show ?thesis by linarith
  qed
  have k1: "5 * k \<le> 4 * n" and k2: "4 * n \<le> 5 * k + 4" unfolding k_def by presburger+
  have fivep: "5 * p = 4 * (n * T) + n"
  proof -
    have "5 * p = n * (5 * M)" by (simp add: p_def)
    also have "\<dots> = n * (4 * T + 1)" by (simp only: five)
    finally show ?thesis by (simp add: algebra_simps)
  qed
  have kT1: "5 * (k * T) \<le> 4 * (n * T)"
  proof -
    from k1 have "(5 * k) * T \<le> (4 * n) * T" by (rule mult_le_mono1)
    then show ?thesis by (simp only: mult.assoc)
  qed
  have kT2: "4 * (n * T) \<le> 5 * (k * T) + 4 * T"
  proof -
    from k2 have "(4 * n) * T \<le> (5 * k + 4) * T" by (rule mult_le_mono1)
    then show ?thesis by (simp only: mult.assoc add_mult_distrib)
  qed
  have pow_s: "2 ^ s \<le> max 1 n"
  proof (cases "s = 0")
    case True then show ?thesis by simp
  next
    case False
    with rr(3) have bl: "bit_length p = s + 53" by simp
    have "p \<noteq> 0"
    proof
      assume "p = 0"
      with bl show False by (simp add: bit_length.simps)
    qed
    from bit_length_bounds [OF this] have "2 ^ (bit_length p - 1) \<le> p" by simp
    moreover have "bit_length p - 1 = s + 52" using bl by simp
    ultimately have "2 ^ (s + 52) \<le> p" by simp
    also have "p \<le> n * T" unfolding p_def using M52 by simp
    finally have "(2::nat) ^ s * T \<le> n * T" by (simp add: power_add T_def)
    moreover have "0 < T" by (simp add: T_def)
    ultimately have "2 ^ s \<le> n" by simp
    then show ?thesis by simp
  qed
  have s52: "s \<le> 52"
  proof -
    have "max 1 n \<le> 2 ^ 49" using n by simp
    with pow_s have "(2::nat) ^ s \<le> 2 ^ 49" by (rule order_trans)
    then have "s \<le> 49" by (simp del: power_numeral)
    then show ?thesis by simp
  qed
  have kp: "k * T \<le> p" using kT1 fivep by linarith
  have split: "k * T = k * 2 ^ (52 - s) * 2 ^ s"
    using s52 by (simp add: T_def power_add [symmetric] del: power_numeral)
  from kp split have "k * 2 ^ (52 - s) * 2 ^ s \<le> p" by simp
  then have "k * 2 ^ (52 - s) \<le> p div 2 ^ s"
    by (simp add: less_eq_div_iff_mult_less_eq)
  then have "k * 2 ^ (52 - s) * 2 ^ s \<le> p div 2 ^ s * 2 ^ s" by (rule mult_le_mono1)
  with split rr(1) have lower: "k * T \<le> q * 2 ^ s" by linarith
  have small: "n + 5 * 2 ^ s < T"
  proof -
    have "n + 5 * 2 ^ s \<le> n + 5 * max 1 n" using pow_s by simp
    also have "\<dots> \<le> 6 * 2 ^ 49" using n by (simp add: max_def)
    also have "\<dots> < T" by (simp add: T_def)
    finally show ?thesis .
  qed
  with fivep kT2 have "p + 2 ^ s < k * T + T" by linarith
  with rr(2) have upper: "q * 2 ^ s < (k + 1) * T" by simp
  from lower upper have "q * 2 ^ s div T = k"
    by (simp add: div_nat_eqI mult.commute)
  then show ?thesis
    using r by (simp add: int_len_times_0_8_def float_of_len_small [OF n53] p_def M_def k_def T_def)
qed

subsection \<open>The two selections\<close>

lemma select_take: "k \<le> length xs \<Longrightarrow> select xs [0..<k] = Inr (take k xs)"
  by (auto simp: select_def list_eq_iff_nth_eq)

lemma select_drop: "select xs [k..<length xs] = Inr (drop k xs)"
  by (auto simp: select_def list_eq_iff_nth_eq)

lemma select_prefix_bound: "select xs [0..<k] = Inr ys \<Longrightarrow> k \<le> length xs"
proof (rule ccontr)
  assume s: "select xs [0..<k] = Inr ys" and "\<not> k \<le> length xs"
  then have "length xs \<in> set [0..<k]" by simp
  with s show False by (auto simp: select_def split: if_splits)
qed

lemma train_eval_split_total:
  assumes "length tds \<le> 2 ^ 49"
  shows "train_eval_split tds s =
           (Inr (take (4 * length tds div 5) tds, drop (4 * length tds div 5) tds),
            s @ [Ev (Len_times_0_8 (length tds)) None,
                 Ev (Dataset_select 0 (4 * length tds div 5)) None,
                 Ev (Len_times_0_8 (length tds)) None,
                 Ev (Dataset_select (4 * length tds div 5) (length tds)) None])"
proof -
  have "4 * length tds div 5 \<le> length tds" by simp
  then show ?thesis
    by (simp add: train_eval_split_def comp_defs int_len_times_0_8_exact [OF assms]
        select_take select_drop)
qed

lemma train_eval_split_Inr:
  assumes "train_eval_split tds s = (Inr (train_dataset, eval_dataset), s')"
  shows "\<exists>k. int_len_times_0_8 (length tds) = Inr k \<and> k \<le> length tds \<and>
             train_dataset = take k tds \<and> eval_dataset = drop k tds"
proof -
  from assms obtain k where k: "int_len_times_0_8 (length tds) = Inr k"
    and tr: "select tds [0..<k] = Inr train_dataset"
    and ev: "select tds [k..<length tds] = Inr eval_dataset"
    by (auto simp: train_eval_split_def comp_defs split: sum.splits)
  from select_prefix_bound [OF tr] have le: "k \<le> length tds" .
  with tr ev have "train_dataset = take k tds" "eval_dataset = drop k tds"
    by (simp_all add: select_take select_drop)
  with k le show ?thesis by blast
qed

lemma sample_split_step:
  "train_eval_split (map f (rev sample_rows)) s =
     (Inr (take 4 (map f (rev sample_rows)), drop 4 (map f (rev sample_rows))),
      s @ [Ev (Len_times_0_8 5) None, Ev (Dataset_select 0 4) None,
           Ev (Len_times_0_8 5) None, Ev (Dataset_select 4 5) None])"
  using train_eval_split_total [of "map f (rev sample_rows)" s]
  by (simp add: sample_rows_length)

text \<open>
  Claim C5.  Whenever the split returns, the training part is the first \<open>k\<close> examples
  of the tokenized dataset and the evaluation part is the rest, where \<open>k\<close> is the value
  of \<^verbatim>\<open>int(n * 0.8)\<close>: together they are the dataset, each example once and in its
  place.  For a dataset of at most \<open>2 ^ 49\<close> examples the split does return and \<open>k\<close> is
  \<open>\<lfloor>0.8 n\<rfloor> = 4 n div 5\<close>: the training part has that many examples and the evaluation
  part the remaining ones.  The bound is where the double-precision product is known
  to be exact; the dataset that the pipeline loads has 50 000 examples.
\<close>

theorem C5_train_eval_partition:
  "(\<forall>train_dataset eval_dataset s'.
       train_eval_split tds s = (Inr (train_dataset, eval_dataset), s') \<longrightarrow>
       (\<exists>k. int_len_times_0_8 (length tds) = Inr k \<and> k \<le> length tds \<and>
            train_dataset = take k tds \<and> eval_dataset = drop k tds) \<and>
       train_dataset @ eval_dataset = tds)
   \<and> (length tds \<le> 2 ^ 49 \<longrightarrow>
        train_eval_split tds s =
          (Inr (take (4 * length tds div 5) tds, drop (4 * length tds div 5) tds),
           s @ [Ev (Len_times_0_8 (length tds)) None,
                Ev (Dataset_select 0 (4 * length tds div 5)) None,
                Ev (Len_times_0_8 (length tds)) None,
                Ev (Dataset_select (4 * length tds div 5) (length tds)) None]) \<and>
        length (take (4 * length tds div 5) tds) = 4 * length tds div 5 \<and>
        length (drop (4 * length tds div 5) tds) = length tds - 4 * length tds div 5 \<and>
        take (4 * length tds div 5) tds @ drop (4 * length tds div 5) tds = tds)"
proof (intro conjI allI impI)
  fix train_dataset eval_dataset s'
  assume run: "train_eval_split tds s = (Inr (train_dataset, eval_dataset), s')"
  from train_eval_split_Inr [OF run]
  show "\<exists>k. int_len_times_0_8 (length tds) = Inr k \<and> k \<le> length tds \<and>
            train_dataset = take k tds \<and> eval_dataset = drop k tds" .
  then show "train_dataset @ eval_dataset = tds" by auto
next
  assume "length tds \<le> 2 ^ 49"
  then show "train_eval_split tds s =
          (Inr (take (4 * length tds div 5) tds, drop (4 * length tds div 5) tds),
           s @ [Ev (Len_times_0_8 (length tds)) None,
                Ev (Dataset_select 0 (4 * length tds div 5)) None,
                Ev (Len_times_0_8 (length tds)) None,
                Ev (Dataset_select (4 * length tds div 5) (length tds)) None])"
    by (rule train_eval_split_total)
next
  show "length (take (4 * length tds div 5) tds) = 4 * length tds div 5" by simp
  show "length (drop (4 * length tds div 5) tds) = length tds - 4 * length tds div 5" by simp
  show "take (4 * length tds div 5) tds @ drop (4 * length tds div 5) tds = tds" by simp
qed

text \<open>C5 on a dataset of 50 000 examples, and on one of five.\<close>

theorem C5_train_eval_partition_witness:
  "fst (train_eval_split (replicate 50000 ()) []) = Inr (replicate 40000 (), replicate 10000 ())
   \<and> fst (train_eval_split [10, 20, 30, 40, 50 :: nat] []) = Inr ([10, 20, 30, 40], [50])"
  using C5_train_eval_partition [of "replicate 50000 ()" "[]"]
        C5_train_eval_partition [of "[10, 20, 30, 40, 50 :: nat]" "[]"]
  by simp

section \<open>Reproducibility of the preprocessing\<close>

text \<open>
  Claim C9.  What can differ between two runs on the same dataset and tokenizer is the
  state of numpy's global generator, from which a shuffle without a seed would draw.
  \<^verbatim>\<open>create_efficient_dataset\<close> gives the seed 42, so in both runs the generator is
  created from 42: the examples are tokenized in the order that this generator draws,
  the outcome and the log of the function are the same in both runs, and so are the
  two parts into which the split that follows divides the tokenized dataset: they
  are the first \<open>k\<close> and the remaining examples of the dataset tokenized in that
  order, \<open>k\<close> being the value of \<^verbatim>\<open>int(n * 0.8)\<close>.
  \<^verbatim>\<open>train_with_memory_optimization\<close> as a whole does not depend on that state either.
\<close>

theorem C9_seeded_shuffle_is_reproducible:
  "create_efficient_dataset (H\<lparr>numpy_global_seed := g\<rparr>) dataset tok max_length_arg s =
     create_efficient_dataset (H\<lparr>numpy_global_seed := g_other\<rparr>) dataset tok max_length_arg s
   \<and> (\<forall>tds s'.
        create_efficient_dataset (H\<lparr>numpy_global_seed := g\<rparr>) dataset tok max_length_arg s =
          (Inr tds, s') \<longrightarrow>
        list_all (\<lambda>i. i < length dataset) (rng_permutation H 42 (length dataset)) \<and>
        map_batched (tokenize_function tok (case max_length_arg of None \<Rightarrow> 512 | Some n \<Rightarrow> n))
          4 1000 (map (\<lambda>i. dataset ! i) (rng_permutation H 42 (length dataset))) = Inr tds \<and>
        s' = s @ [Ev (Dataset_shuffle (Some 42)) None, Ev (Dataset_map 4 1000) None])
   \<and> bnd (create_efficient_dataset (H\<lparr>numpy_global_seed := g\<rparr>) dataset tok max_length_arg)
         train_eval_split s =
     bnd (create_efficient_dataset (H\<lparr>numpy_global_seed := g_other\<rparr>) dataset tok max_length_arg)
         train_eval_split s
   \<and> (\<forall>train_dataset eval_dataset s'.
        bnd (create_efficient_dataset (H\<lparr>numpy_global_seed := g\<rparr>) dataset tok max_length_arg)
          train_eval_split s = (Inr (train_dataset, eval_dataset), s') \<longrightarrow>
        (\<exists>tds k.
           map_batched (tokenize_function tok (case max_length_arg of None \<Rightarrow> 512 | Some n \<Rightarrow> n))
             4 1000 (map (\<lambda>i. dataset ! i) (rng_permutation H 42 (length dataset))) = Inr tds \<and>
           int_len_times_0_8 (length tds) = Inr k \<and>
           train_dataset = take k tds \<and> eval_dataset = drop k tds))
   \<and> train_with_memory_optimization S (H\<lparr>numpy_global_seed := g\<rparr>) s =
     train_with_memory_optimization S (H\<lparr>numpy_global_seed := g_other\<rparr>) s"
proof (intro conjI allI impI)
  show "train_with_memory_optimization S (H\<lparr>numpy_global_seed := g\<rparr>) s =
     train_with_memory_optimization S (H\<lparr>numpy_global_seed := g_other\<rparr>) s"
    by (simp add: pipeline_defs shuffle_def)
next
  show eq: "create_efficient_dataset (H\<lparr>numpy_global_seed := g\<rparr>) dataset tok max_length_arg s =
     create_efficient_dataset (H\<lparr>numpy_global_seed := g_other\<rparr>) dataset tok max_length_arg s"
    by (simp add: create_efficient_dataset_def shuffle_def)
  then show "bnd (create_efficient_dataset (H\<lparr>numpy_global_seed := g\<rparr>) dataset tok max_length_arg)
         train_eval_split s =
     bnd (create_efficient_dataset (H\<lparr>numpy_global_seed := g_other\<rparr>) dataset tok max_length_arg)
         train_eval_split s"
    by (simp add: bnd_def)
next
  have pinned: "list_all (\<lambda>i. i < length dataset) (rng_permutation H 42 (length dataset)) \<and>
      map_batched (tokenize_function tok (case max_length_arg of None \<Rightarrow> 512 | Some n \<Rightarrow> n))
          4 1000 (map (\<lambda>i. dataset ! i) (rng_permutation H 42 (length dataset))) = Inr tds \<and>
      s' = s @ [Ev (Dataset_shuffle (Some 42)) None, Ev (Dataset_map 4 1000) None]"
    if "create_efficient_dataset (H\<lparr>numpy_global_seed := g\<rparr>) dataset tok max_length_arg s =
          (Inr tds, s')" for tds s'
    using that
    by (auto simp add: create_efficient_dataset_def shuffle_def select_def comp_defs Let_def
        list_all_iff split: sum.splits if_splits)
  {
    fix tds s'
    assume run: "create_efficient_dataset (H\<lparr>numpy_global_seed := g\<rparr>) dataset tok max_length_arg s =
          (Inr tds, s')"
    from pinned [OF run]
    show "list_all (\<lambda>i. i < length dataset) (rng_permutation H 42 (length dataset))"
      and "map_batched (tokenize_function tok (case max_length_arg of None \<Rightarrow> 512 | Some n \<Rightarrow> n))
          4 1000 (map (\<lambda>i. dataset ! i) (rng_permutation H 42 (length dataset))) = Inr tds"
      and "s' = s @ [Ev (Dataset_shuffle (Some 42)) None, Ev (Dataset_map 4 1000) None]"
      by simp_all
  }
  {
    fix train_dataset eval_dataset s'
    assume "bnd (create_efficient_dataset (H\<lparr>numpy_global_seed := g\<rparr>) dataset tok max_length_arg)
          train_eval_split s = (Inr (train_dataset, eval_dataset), s')"
    then obtain tds s1 where
      run: "create_efficient_dataset (H\<lparr>numpy_global_seed := g\<rparr>) dataset tok max_length_arg s =
              (Inr tds, s1)"
      and split: "train_eval_split tds s1 = (Inr (train_dataset, eval_dataset), s')"
      by (auto simp add: bnd_def split: prod.splits sum.splits)
    from pinned [OF run] train_eval_split_Inr [OF split]
    show "\<exists>tds k.
           map_batched (tokenize_function tok (case max_length_arg of None \<Rightarrow> 512 | Some n \<Rightarrow> n))
             4 1000 (map (\<lambda>i. dataset ! i) (rng_permutation H 42 (length dataset))) = Inr tds \<and>
           int_len_times_0_8 (length tds) = Inr k \<and>
           train_dataset = take k tds \<and> eval_dataset = drop k tds"
      by blast
  }
qed

text \<open>
  C9 on two runs of the sample library in which numpy's global generator is in
  different states: a shuffle without a seed gives two different orders, the
  function gives the same tokenized dataset, in the order drawn with seed 42.
\<close>

theorem C9_seeded_shuffle_is_reproducible_witness:
  "create_efficient_dataset sample_hf sample_rows pipeline_tokenizer None [] =
     create_efficient_dataset hf_other_run sample_rows pipeline_tokenizer None []
   \<and> fst (create_efficient_dataset sample_hf sample_rows pipeline_tokenizer None []) =
       Inr (map (\<lambda>row. padded_row pipeline_tokenizer 512 (text_col row)) (rev sample_rows))
   \<and> map_batched (tokenize_function pipeline_tokenizer 512) 4 1000
       (map (\<lambda>i. sample_rows ! i) (rng_permutation sample_hf 42 (length sample_rows))) =
       Inr (map (\<lambda>row. padded_row pipeline_tokenizer 512 (text_col row)) (rev sample_rows))
   \<and> rng_permutation sample_hf 42 (length sample_rows) = [4, 3, 2, 1, 0]
   \<and> bnd (create_efficient_dataset sample_hf sample_rows pipeline_tokenizer None) train_eval_split [] =
     bnd (create_efficient_dataset hf_other_run sample_rows pipeline_tokenizer None) train_eval_split []
   \<and> fst (bnd (create_efficient_dataset hf_other_run sample_rows pipeline_tokenizer None)
            train_eval_split []) =
       Inr (take 4 (map (\<lambda>row. padded_row pipeline_tokenizer 512 (text_col row)) (rev sample_rows)),
            drop 4 (map (\<lambda>row. padded_row pipeline_tokenizer 512 (text_col row)) (rev sample_rows)))
   \<and> shuffle sample_hf None sample_rows = Inr sample_rows
   \<and> shuffle hf_other_run None sample_rows = Inr (rev sample_rows)"
proof -
  have h: "sample_hf\<lparr>numpy_global_seed := 7\<rparr> = sample_hf"
    "sample_hf\<lparr>numpy_global_seed := 8\<rparr> = hf_other_run"
    by (simp_all add: sample_hf_defs)
  have u: "[0..<5] = [0, 1, 2, 3, 4]" by code_simp
  have unseeded: "shuffle sample_hf None sample_rows = Inr sample_rows"
    "shuffle hf_other_run None sample_rows = Inr (rev sample_rows)"
    by (simp_all add: shuffle_def select_def sample_hf_defs sample_rows_def u)
  have perm: "rng_permutation sample_hf 42 (length sample_rows) = [4, 3, 2, 1, 0]"
    by (simp add: sample_permutation sample_rows_length u)
  note run = sample_dataset_step [of sample_hf "[]", OF sample_permutation [THEN ext]]
  note c9 = C9_seeded_shuffle_is_reproducible
         [where H = sample_hf and g = 7 and g_other = 8 and dataset = sample_rows
            and tok = pipeline_tokenizer and max_length_arg = None and s = "[]",
          unfolded h]
  from c9 [THEN conjunct2, THEN conjunct1, rule_format, OF run]
  have pinned: "map_batched (tokenize_function pipeline_tokenizer 512) 4 1000
       (map (\<lambda>i. sample_rows ! i) (rng_permutation sample_hf 42 (length sample_rows))) =
       Inr (map (\<lambda>row. padded_row pipeline_tokenizer 512 (text_col row)) (rev sample_rows))"
    by (simp only: option.case)
  have first: "fst (create_efficient_dataset sample_hf sample_rows pipeline_tokenizer None []) =
       Inr (map (\<lambda>row. padded_row pipeline_tokenizer 512 (text_col row)) (rev sample_rows))"
    by (simp add: run)
  have "fst (bnd (create_efficient_dataset sample_hf sample_rows pipeline_tokenizer None)
            train_eval_split []) =
       Inr (take 4 (map (\<lambda>row. padded_row pipeline_tokenizer 512 (text_col row)) (rev sample_rows)),
            drop 4 (map (\<lambda>row. padded_row pipeline_tokenizer 512 (text_col row)) (rev sample_rows)))"
    by (simp add: bnd_def run sample_split_step)
  with c9 [THEN conjunct2, THEN conjunct2, THEN conjunct1]
  have parts: "fst (bnd (create_efficient_dataset hf_other_run sample_rows pipeline_tokenizer None)
            train_eval_split []) =
       Inr (take 4 (map (\<lambda>row. padded_row pipeline_tokenizer 512 (text_col row)) (rev sample_rows)),
            drop 4 (map (\<lambda>row. padded_row pipeline_tokenizer 512 (text_col row)) (rev sample_rows)))"
    by simp
  from c9 [THEN conjunct1] first pinned perm
    c9 [THEN conjunct2, THEN conjunct2, THEN conjunct1] parts unseeded
  show ?thesis by (intro conjI)
qed

section \<open>The pipeline\<close>

subsection \<open>Runs on the sample environments\<close>

lemma args_dirs:
  "output_dir memory_optimized_training_args = ''./llama2_finetune''"
  "logging_dir memory_optimized_training_args = ''./logs''"
  by (simp_all add: memory_optimized_training_args_def)

lemmas sample_steps = train_with_memory_optimization_def optimize_memory_def
  print_gpu_utilization_def load_model_with_minimal_memory_def
  create_memory_optimized_training_args_def comp_defs sample_sys_defs sample_hf_defs
  isinstance_def sample_tokenizer_step sample_dataset_step sample_split_step
  sample_rows_length args_dirs sample_log_defs

lemma sample_run:
  "train_with_memory_optimization sample_sys sample_hf [] =
     (Inr 54,
      sample_memory_log @ sample_setup_log @ sample_data_log @
      [Ev Trainer_train None, Ev (Trainer_save_model ''./final_llama2_model'') None])"
  by (simp add: sample_steps)

lemma out_of_memory_run:
  "train_with_memory_optimization sample_sys hf_out_of_memory [] =
     (Inr 11,
      sample_memory_log @ sample_setup_log @ sample_data_log @
      [Ev Trainer_train (Some (Exn OutOfMemoryError ''CUDA out of memory'')),
       Ev (Print (Training_interrupted (Exn OutOfMemoryError ''CUDA out of memory''))) None,
       Ev (Trainer_save_model ''./partial_model'') None])"
  by (simp add: sample_steps)

lemma out_of_memory_disk_full_run:
  "train_with_memory_optimization sample_sys hf_out_of_memory_disk_full [] =
     (Inl (Exn OSError ''No space left on device''),
      sample_memory_log @ sample_setup_log @ sample_data_log @
      [Ev Trainer_train (Some (Exn OutOfMemoryError ''CUDA out of memory'')),
       Ev (Print (Training_interrupted (Exn OutOfMemoryError ''CUDA out of memory''))) None,
       Ev (Trainer_save_model ''./partial_model'') (Some (Exn OSError ''No space left on device''))])"
  by (simp add: sample_steps)

lemma hub_unreachable_run:
  "train_with_memory_optimization sample_sys hf_hub_unreachable [] =
     (Inl (Exn OSError ''Connection error''),
      sample_memory_log @ sample_setup_log @
      [Ev (Load_dataset ''imdb'' ''train+test'') (Some (Exn OSError ''Connection error''))])"
  by (simp add: sample_steps)

lemma without_pynvml_run:
  "train_with_memory_optimization sys_without_pynvml sample_hf [] =
     (Inr 54,
      [Ev Cuda_empty_cache None, Ev Cuda_reset_peak_memory_stats None,
       Ev (Set_float32_matmul_precision ''medium'') None,
       Ev Import_pynvml (Some (Exn ModuleNotFoundError ''No module named pynvml'')),
       Ev (Print Nvml_not_available) None,
       Ev Cuda_memory_allocated None, Ev (Print (Allocated_gpu_memory 1024)) None,
       Ev Cuda_memory_reserved None, Ev (Print (Cached_gpu_memory 2048)) None,
       Ev (Environ_set ''PYTORCH_CUDA_ALLOC_CONF''
             ''expandable_segments:True,max_split_size_mb:128'') None]
      @ sample_setup_log @ sample_data_log @
      [Ev Trainer_train None, Ev (Trainer_save_model ''./final_llama2_model'') None])"
  by (simp add: sample_steps)

subsection \<open>Order of the stages\<close>

lemma optimize_memory_stage:
  "\<exists>r es. optimize_memory S s = (r, s @ es) \<and> es \<noteq> [] \<and>
          (\<forall>ev \<in> set es. stage_of (ev_call ev) = Memory_optimization)"
  by (auto simp: optimize_memory_def print_gpu_utilization_def comp_defs split: sum.splits)

lemma stage_memory_not_pipeline:
  assumes "\<forall>ev \<in> set es. stage_of (ev_call ev) = Memory_optimization"
  shows "Ev Trainer_train out \<notin> set es" and "Ev (Trainer_save_model path) out \<notin> set es"
    and "list_all uses_fixed_names es"
proof -
  show "Ev Trainer_train out \<notin> set es" using assms by force
  show "Ev (Trainer_save_model path) out \<notin> set es" using assms by force
  show "list_all uses_fixed_names es"
    unfolding list_all_iff
  proof
    fix ev assume "ev \<in> set es"
    then have "stage_of (ev_call ev) = Memory_optimization" using assms by blast
    then show "uses_fixed_names ev"
      by (cases ev; cases "ev_call ev") (auto simp: uses_fixed_names_def)
  qed
qed







subsection \<open>Names and paths\<close>

lemma filter_memory_stage:
  assumes "\<forall>ev \<in> set es. stage_of (ev_call ev) = Memory_optimization"
  shows "filter names_a_resource es = []"
  unfolding filter_empty_conv
proof
  fix ev assume "ev \<in> set es"
  then have "stage_of (ev_call ev) = Memory_optimization" using assms by blast
  then show "\<not> names_a_resource ev"
    by (cases ev; cases "ev_call ev") (auto simp: names_a_resource_def)
qed

lemma names_a_resource_simps:
  "names_a_resource (Ev (AutoModelForCausalLM_from_pretrained m) out)"
  "names_a_resource (Ev (AutoTokenizer_from_pretrained m) out)"
  "names_a_resource (Ev (Load_dataset a b) out)"
  "names_a_resource (Ev (TrainingArguments a b) out)"
  "names_a_resource (Ev (Trainer a b) out)"
  "names_a_resource (Ev (Trainer_save_model a) out)"
  "\<not> names_a_resource (Ev BitsAndBytesConfig out)"
  "\<not> names_a_resource (Ev LoraConfig out)"
  "\<not> names_a_resource (Ev Prepare_model_for_kbit_training out)"
  "\<not> names_a_resource (Ev Get_peft_model out)"
  "\<not> names_a_resource (Ev (Dataset_shuffle sd) out)"
  "\<not> names_a_resource (Ev (Dataset_map p b') out)"
  "\<not> names_a_resource (Ev (Len_times_0_8 n) out)"
  "\<not> names_a_resource (Ev (Dataset_select i j) out)"
  "\<not> names_a_resource (Ev DataCollatorForLanguageModeling out)"
  "\<not> names_a_resource (Ev Trainer_train out)"
  "\<not> names_a_resource (Ev (Print msg) out)"
  by (simp_all add: names_a_resource_def)

lemma pipeline_named_calls:
  assumes run: "train_with_memory_optimization S H s = (r, log)"
  shows "take (length s) log = s \<and>
         list_all uses_fixed_names (drop (length s) log) \<and>
         (\<forall>path out. Ev (Trainer_save_model path) out \<in> set (drop (length s) log) \<longrightarrow>
            (path = ''./final_llama2_model'') = (Ev Trainer_train None \<in> set (drop (length s) log))) \<and>
         prefix (map ev_call (filter names_a_resource (drop (length s) log)))
           (named_calls (if Ev Trainer_train None \<in> set (drop (length s) log)
                         then ''./final_llama2_model'' else ''./partial_model'')) \<and>
         (\<forall>trainer. r = Inr trainer \<longrightarrow>
            filter names_a_resource (drop (length s) log) =
              map (\<lambda>c. Ev c None)
                (named_calls (if Ev Trainer_train None \<in> set (drop (length s) log)
                              then ''./final_llama2_model'' else ''./partial_model'')))"
proof -
  obtain r0 es0 where om: "optimize_memory S s = (r0, s @ es0)"
    and st: "\<forall>ev \<in> set es0. stage_of (ev_call ev) = Memory_optimization"
    using optimize_memory_stage by blast
  note mem = stage_memory_not_pipeline [OF st] filter_memory_stage [OF st]
  show ?thesis
    using run
    by (auto simp: pipeline_defs comp_defs om mem Let_def uses_fixed_names_def args_dirs MODEL_ID_def
        names_a_resource_simps named_calls_def
        split: sum.splits prod.splits option.splits if_splits)
qed

lemma pipeline_named_answers:
  assumes run: "train_with_memory_optimization S H s = (Inr trainer, log)"
  shows "\<exists>m1 tok0 ds.
           auto_model_from_pretrained H ''meta-llama/Llama-2-7b-hf'' model_kwargs = Inr m1 \<and>
           auto_tokenizer_from_pretrained H ''meta-llama/Llama-2-7b-hf'' tokenizer_kwargs = Inr tok0 \<and>
           load_dataset H ''imdb'' ''train+test'' = Inr ds \<and>
           training_arguments_init H memory_optimized_training_args = Inr () \<and>
           output_dir memory_optimized_training_args = ''./llama2_finetune'' \<and>
           logging_dir memory_optimized_training_args = ''./logs'' \<and>
           trainer_save_model H trainer
             (if Ev Trainer_train None \<in> set (drop (length s) log)
              then ''./final_llama2_model'' else ''./partial_model'') = Inr ()"
proof -
  obtain r0 es0 where om: "optimize_memory S s = (r0, s @ es0)"
    and st: "\<forall>ev \<in> set es0. stage_of (ev_call ev) = Memory_optimization"
    using optimize_memory_stage by blast
  note mem = stage_memory_not_pipeline [OF st]
  show ?thesis
    using run
    by (auto simp add: pipeline_defs comp_defs om mem Let_def args_dirs MODEL_ID_def
        split: sum.splits prod.splits option.splits if_splits)
qed

text \<open>
  Claim C6.  The function takes no argument.  In every run, whatever the libraries
  answer, the calls that name a model, a dataset or a directory are an initial segment
  of six calls with fixed names, in this order: the model \<^verbatim>\<open>meta-llama/Llama-2-7b-hf\<close>
  is loaded, its tokenizer is loaded, the dataset \<^verbatim>\<open>imdb\<close> is loaded with split
  \<^verbatim>\<open>train+test\<close>, the training arguments and the trainer are built with
  \<^verbatim>\<open>./llama2_finetune\<close> for the checkpoints and \<^verbatim>\<open>./logs\<close> for the logs, and the model
  is saved, to \<^verbatim>\<open>./final_llama2_model\<close> exactly when training returned (to
  \<^verbatim>\<open>./partial_model\<close> otherwise).  A run that returns has made all six calls, each
  of them successfully: the libraries were asked for exactly these names and answered.
\<close>

theorem C6_fixed_names:
  assumes run: "train_with_memory_optimization S H s = (r, log)"
  shows "take (length s) log = s \<and>
         list_all uses_fixed_names (drop (length s) log) \<and>
         (\<forall>path out. Ev (Trainer_save_model path) out \<in> set (drop (length s) log) \<longrightarrow>
            (path = ''./final_llama2_model'') = (Ev Trainer_train None \<in> set (drop (length s) log))) \<and>
         prefix (map ev_call (filter names_a_resource (drop (length s) log)))
           (named_calls (if Ev Trainer_train None \<in> set (drop (length s) log)
                         then ''./final_llama2_model'' else ''./partial_model'')) \<and>
         (\<forall>trainer. r = Inr trainer \<longrightarrow>
            filter names_a_resource (drop (length s) log) =
              map (\<lambda>c. Ev c None)
                (named_calls (if Ev Trainer_train None \<in> set (drop (length s) log)
                              then ''./final_llama2_model'' else ''./partial_model'')) \<and>
            (\<exists>m1 tok0 ds.
               auto_model_from_pretrained H ''meta-llama/Llama-2-7b-hf'' model_kwargs = Inr m1 \<and>
               auto_tokenizer_from_pretrained H ''meta-llama/Llama-2-7b-hf'' tokenizer_kwargs = Inr tok0 \<and>
               load_dataset H ''imdb'' ''train+test'' = Inr ds \<and>
               training_arguments_init H memory_optimized_training_args = Inr () \<and>
               output_dir memory_optimized_training_args = ''./llama2_finetune'' \<and>
               logging_dir memory_optimized_training_args = ''./logs'' \<and>
               trainer_save_model H trainer
                 (if Ev Trainer_train None \<in> set (drop (length s) log)
                  then ''./final_llama2_model'' else ''./partial_model'') = Inr ()))"
proof (intro conjI allI impI)
  note calls = pipeline_named_calls [OF run]
  from calls show "take (length s) log = s" by (rule conjunct1)
  from calls show "list_all uses_fixed_names (drop (length s) log)" by simp
  from calls show "prefix (map ev_call (filter names_a_resource (drop (length s) log)))
           (named_calls (if Ev Trainer_train None \<in> set (drop (length s) log)
                         then ''./final_llama2_model'' else ''./partial_model''))"
    by simp
  {
    fix path out
    assume "Ev (Trainer_save_model path) out \<in> set (drop (length s) log)"
    with calls
    show "(path = ''./final_llama2_model'') = (Ev Trainer_train None \<in> set (drop (length s) log))"
      by blast
  }
  {
    fix trainer
    assume r: "r = Inr trainer"
    with calls show "filter names_a_resource (drop (length s) log) =
              map (\<lambda>c. Ev c None)
                (named_calls (if Ev Trainer_train None \<in> set (drop (length s) log)
                              then ''./final_llama2_model'' else ''./partial_model''))"
      by blast
    from r run have "train_with_memory_optimization S H s = (Inr trainer, log)" by simp
    then show "\<exists>m1 tok0 ds.
               auto_model_from_pretrained H ''meta-llama/Llama-2-7b-hf'' model_kwargs = Inr m1 \<and>
               auto_tokenizer_from_pretrained H ''meta-llama/Llama-2-7b-hf'' tokenizer_kwargs = Inr tok0 \<and>
               load_dataset H ''imdb'' ''train+test'' = Inr ds \<and>
               training_arguments_init H memory_optimized_training_args = Inr () \<and>
               output_dir memory_optimized_training_args = ''./llama2_finetune'' \<and>
               logging_dir memory_optimized_training_args = ''./logs'' \<and>
               trainer_save_model H trainer
                 (if Ev Trainer_train None \<in> set (drop (length s) log)
                  then ''./final_llama2_model'' else ''./partial_model'') = Inr ()"
      by (rule pipeline_named_answers)
  }
qed

text \<open>
  C6 on the sample run, and on the run in which training hits the memory limit.
\<close>

theorem C6_fixed_names_witness:
  "filter names_a_resource (snd (train_with_memory_optimization sample_sys sample_hf [])) =
     [Ev (AutoModelForCausalLM_from_pretrained ''meta-llama/Llama-2-7b-hf'') None,
      Ev (AutoTokenizer_from_pretrained ''meta-llama/Llama-2-7b-hf'') None,
      Ev (Load_dataset ''imdb'' ''train+test'') None,
      Ev (TrainingArguments ''./llama2_finetune'' ''./logs'') None,
      Ev (Trainer ''./llama2_finetune'' ''./logs'') None,
      Ev (Trainer_save_model ''./final_llama2_model'') None]
   \<and> filter names_a_resource (snd (train_with_memory_optimization sample_sys hf_out_of_memory [])) =
     [Ev (AutoModelForCausalLM_from_pretrained ''meta-llama/Llama-2-7b-hf'') None,
      Ev (AutoTokenizer_from_pretrained ''meta-llama/Llama-2-7b-hf'') None,
      Ev (Load_dataset ''imdb'' ''train+test'') None,
      Ev (TrainingArguments ''./llama2_finetune'' ''./logs'') None,
      Ev (Trainer ''./llama2_finetune'' ''./logs'') None,
      Ev (Trainer_save_model ''./partial_model'') None]
   \<and> list_all uses_fixed_names (snd (train_with_memory_optimization sample_sys sample_hf []))
   \<and> Ev (Trainer_save_model ''./final_llama2_model'') None
       \<in> set (snd (train_with_memory_optimization sample_sys sample_hf []))
   \<and> Ev Trainer_train None \<in> set (snd (train_with_memory_optimization sample_sys sample_hf []))
   \<and> auto_model_from_pretrained sample_hf ''meta-llama/Llama-2-7b-hf'' model_kwargs =
       Inr ''meta-llama/Llama-2-7b-hf''
   \<and> load_dataset sample_hf ''imdb'' ''train+test'' = Inr sample_rows"
proof -
  have final: "Ev Trainer_train None \<in> set (snd (train_with_memory_optimization sample_sys sample_hf []))"
    by (simp add: sample_run)
  have partial: "Ev Trainer_train None
      \<notin> set (snd (train_with_memory_optimization sample_sys hf_out_of_memory []))"
    by (simp add: out_of_memory_run sample_log_defs)
  have lib: "auto_model_from_pretrained sample_hf ''meta-llama/Llama-2-7b-hf'' model_kwargs =
       Inr ''meta-llama/Llama-2-7b-hf''"
    "load_dataset sample_hf ''imdb'' ''train+test'' = Inr sample_rows"
    by (simp_all add: sample_hf_def)
  from C6_fixed_names [OF sample_run] C6_fixed_names [OF out_of_memory_run] final partial lib
  show ?thesis by (simp add: sample_run out_of_memory_run named_calls_def)
qed

subsection \<open>Failures\<close>

lemma unhandled_failure_simps:
  "unhandled_failure (Ev c None) = False"
  "unhandled_failure (Ev c (Some e)) = (\<not> handled_somewhere c e)"
  by (simp_all add: unhandled_failure_def)

lemma propagates_simps:
  "propagates r [ev] = (unhandled_failure ev \<longrightarrow> raised r = ev_raised ev)"
  "propagates r (ev # ev' # es) = (\<not> unhandled_failure ev \<and> propagates r (ev' # es))"
  "propagates r (es0 @ ev # es) =
     (list_all (\<lambda>ev. \<not> unhandled_failure ev) es0 \<and> propagates r (ev # es))"
  by (auto simp: propagates_def butlast_append)

lemma optimize_memory_propagates:
  "\<exists>r es. optimize_memory S s = (r, s @ es) \<and> es \<noteq> [] \<and> propagates r es"
  by (simp add: optimize_memory_def print_gpu_utilization_def comp_defs propagates_simps
       unhandled_failure_simps handled_somewhere_def split: sum.splits)

lemma propagates_Inr:
  assumes "propagates (Inr x) es"
  shows "list_all (\<lambda>ev. \<not> unhandled_failure ev) es"
proof (cases es rule: rev_cases)
  case Nil
  then show ?thesis by simp
next
  case (snoc ys y)
  with assms show ?thesis
    by (auto simp: propagates_def raised_def unhandled_failure_def split: option.splits)
qed

lemma propagatesD:
  assumes "propagates r es" and "Ev c (Some e) \<in> set es" and "\<not> handled_somewhere c e"
  shows "r = Inl e \<and> last es = Ev c (Some e)"
proof (cases es rule: rev_cases)
  case Nil
  with assms show ?thesis by simp
next
  case (snoc ys y)
  have uf: "unhandled_failure (Ev c (Some e))"
    using assms(3) by (simp add: unhandled_failure_def)
  with assms(1) snoc have "Ev c (Some e) \<notin> set ys"
    by (auto simp: propagates_def list_all_iff)
  with assms(2) snoc have y: "y = Ev c (Some e)" by simp
  with assms(1) snoc uf have "raised r = Some e" by (simp add: propagates_def)
  then have "r = Inl e" by (cases r) (simp_all add: raised_def)
  with y snoc show ?thesis by simp
qed

lemma pipeline_propagates:
  "\<exists>r es. train_with_memory_optimization S H s = (r, s @ es) \<and> es \<noteq> [] \<and> propagates r es"
proof -
  obtain r0 es0 where om: "optimize_memory S s = (r0, s @ es0)" and ne: "es0 \<noteq> []"
    and pr: "propagates r0 es0"
    using optimize_memory_propagates by blast
  show ?thesis
  proof (cases r0)
    case (Inl e)
    with om ne pr show ?thesis
      by (simp add: train_with_memory_optimization_def bnd_def propagates_def raised_def)
  next
    case (Inr u)
    from pr [unfolded Inr] have clean: "list_all (\<lambda>ev. \<not> unhandled_failure ev) es0"
      by (rule propagates_Inr)
    from Inr om clean show ?thesis
      by (simp add: pipeline_defs comp_defs Let_def propagates_simps
          unhandled_failure_simps handled_somewhere_def 
          split: sum.splits prod.splits option.splits)
  qed
qed

text \<open>
  Claim C2, as far as it holds.  A call that fails with an exception no handler is
  written for ends the run: the function raises that exception, and the failed call
  is the last entry of the log, so nothing is saved, retried or substituted after it.
  No handler is written for any failure but a \<open>RuntimeError\<close> of the training call
  and the failures inside the \<^verbatim>\<open>try\<close> statement of \<^verbatim>\<open>print_gpu_utilization\<close>.
\<close>

theorem C2_unhandled_failures_propagate:
  assumes run: "train_with_memory_optimization S H s = (r, log)"
    and failed: "Ev c (Some e) \<in> set (drop (length s) log)"
    and unhandled: "\<not> handled_somewhere c e"
  shows "r = Inl e \<and> last log = Ev c (Some e)"
proof -
  obtain r' es where eq: "train_with_memory_optimization S H s = (r', s @ es)"
    and ne: "es \<noteq> []" and pr: "propagates r' es"
    using pipeline_propagates by blast
  with run have "r' = r" and log: "log = s @ es" by simp_all
  with failed have "Ev c (Some e) \<in> set es" by simp
  from propagatesD [OF pr this unhandled] log ne \<open>r' = r\<close>
  show ?thesis by simp
qed

text \<open>C2 when the dataset cannot be downloaded.\<close>

theorem C2_unhandled_failures_propagate_witness:
  "fst (train_with_memory_optimization sample_sys hf_hub_unreachable []) =
     Inl (Exn OSError ''Connection error'')
   \<and> last (snd (train_with_memory_optimization sample_sys hf_hub_unreachable [])) =
       Ev (Load_dataset ''imdb'' ''train+test'') (Some (Exn OSError ''Connection error''))"
  using C2_unhandled_failures_propagate [OF hub_unreachable_run,
          of "Load_dataset ''imdb'' ''train+test''" "Exn OSError ''Connection error''"]
  by (simp add: hub_unreachable_run handled_somewhere_def)

text \<open>
  Against C2 as stated (``no other handler exists anywhere in the pipeline''): on a
  machine without the \<^verbatim>\<open>pynvml\<close> module the import fails inside the first stage, the
  failure is caught there, the fallback report is printed and the run completes.
\<close>

theorem C2_import_error_is_handled:
  "fst (train_with_memory_optimization sys_without_pynvml sample_hf []) = Inr 54
   \<and> Ev Import_pynvml (Some (Exn ModuleNotFoundError ''No module named pynvml''))
       \<in> set (snd (train_with_memory_optimization sys_without_pynvml sample_hf []))
   \<and> Ev (Print Nvml_not_available) None
       \<in> set (snd (train_with_memory_optimization sys_without_pynvml sample_hf []))"
  by (simp add: without_pynvml_run)

text \<open>
  Claim C1, as far as it holds.  When the training call raises a \<open>RuntimeError\<close>, the
  handler runs: the log ends with the failed training call, the message and the call
  that saves to \<^verbatim>\<open>./partial_model\<close>.  When that save returns, the function returns
  the trainer object, in the state training left it in; when the save itself raises,
  that exception is the outcome.
\<close>

theorem C1_runtime_error_in_training:
  assumes run: "train_with_memory_optimization S H s = (r, log)"
    and failed: "Ev Trainer_train (Some e) \<in> set (drop (length s) log)"
    and rt: "isinstance e RuntimeError"
  shows "\<exists>model args train_ds eval_ds collator tr0 tr.
           trainer_init H model args train_ds eval_ds collator = Inr tr0 \<and>
           trainer_train H tr0 = (tr, Inl e) \<and>
           suffix [Ev Trainer_train (Some e), Ev (Print (Training_interrupted e)) None,
                   Ev (Trainer_save_model ''./partial_model'')
                      (raised (trainer_save_model H tr ''./partial_model''))] log \<and>
           r = (case trainer_save_model H tr ''./partial_model'' of
                  Inl e' \<Rightarrow> Inl e' | Inr _ \<Rightarrow> Inr tr)"
proof -
  obtain r0 es0 where om: "optimize_memory S s = (r0, s @ es0)"
    and st: "\<forall>ev \<in> set es0. stage_of (ev_call ev) = Memory_optimization"
    using optimize_memory_stage by blast
  note mem = stage_memory_not_pipeline [OF st]
  show ?thesis
    using run failed rt
    apply (clarsimp simp add: pipeline_defs comp_defs om mem Let_def suffix_to_prefix
        split: sum.split_asm prod.split_asm option.split_asm if_split_asm)
    subgoal by (intro exI conjI) (assumption | simp)+
    subgoal by (intro exI conjI) (assumption | simp)+
    done
qed

text \<open>C1 when training runs out of GPU memory.\<close>

theorem C1_runtime_error_in_training_witness:
  "\<exists>model args train_ds eval_ds collator tr0 tr.
     trainer_init hf_out_of_memory model args train_ds eval_ds collator = Inr tr0 \<and>
     trainer_train hf_out_of_memory tr0 = (tr, Inl (Exn OutOfMemoryError ''CUDA out of memory'')) \<and>
     suffix [Ev Trainer_train (Some (Exn OutOfMemoryError ''CUDA out of memory'')),
             Ev (Print (Training_interrupted (Exn OutOfMemoryError ''CUDA out of memory''))) None,
             Ev (Trainer_save_model ''./partial_model'')
                (raised (trainer_save_model hf_out_of_memory tr ''./partial_model''))]
       (snd (train_with_memory_optimization sample_sys hf_out_of_memory [])) \<and>
     fst (train_with_memory_optimization sample_sys hf_out_of_memory []) =
       (case trainer_save_model hf_out_of_memory tr ''./partial_model'' of
          Inl e' \<Rightarrow> Inl e' | Inr _ \<Rightarrow> Inr tr)"
  using C1_runtime_error_in_training [OF out_of_memory_run,
          of "Exn OutOfMemoryError ''CUDA out of memory''"]
  by (simp add: out_of_memory_run isinstance_def)

text \<open>
  Against C1 as stated: training runs out of GPU memory, which is a \<open>RuntimeError\<close>,
  and the disk is full; the save in the handler raises, and the function raises with
  it instead of returning the trainer.
\<close>

theorem C1_partial_save_can_fail:
  "fst (train_with_memory_optimization sample_sys hf_out_of_memory_disk_full []) =
     Inl (Exn OSError ''No space left on device'')
   \<and> Ev Trainer_train (Some (Exn OutOfMemoryError ''CUDA out of memory''))
       \<in> set (snd (train_with_memory_optimization sample_sys hf_out_of_memory_disk_full []))
   \<and> isinstance (Exn OutOfMemoryError ''CUDA out of memory'') RuntimeError"
  by (simp add: out_of_memory_disk_full_run isinstance_def)

end
